theory Spec2Isabelle
  imports Main
begin

section \<open>The k3s bootstrapper of kubefire\<close>

text \<open>
  The development embeds the k3s bootstrapper (type \<open>K3sBootstrapper\<close> of package
  \<open>bootstrap\<close>): its methods \<open>Deploy\<close>, \<open>init\<close>, \<open>bootstrap\<close> and \<open>join\<close>.
  The bootstrapper talks to two collaborators, the node manager and the remote executor
  (ssh). Both are outside the sources, so they are parameters of the model: every call to
  them is appended to a trace of events, and what a call answers is a function of the
  trace so far and of the call's arguments. A deterministic collaborator can answer on
  nothing else, so the model covers every such behaviour of the collaborators.
\<close>

subsection \<open>Strings\<close>

text \<open>Go strings are byte sequences; so is \<^typ>\<open>string\<close>.\<close>

definition dquote :: char where
  "dquote = CHR 0x22"

definition newline :: char where
  "newline = CHR 0x0A"

text \<open>\<open>strings.Join(elems, sep)\<close>.\<close>

fun strings_Join :: "string list \<Rightarrow> string \<Rightarrow> string" where
  "strings_Join [] sep = []"
| "strings_Join [x] sep = x"
| "strings_Join (x # y # ys) sep = x @ sep @ strings_Join (y # ys) sep"

text \<open>\<open>strings.HasSuffix(s, suffix)\<close> and \<open>strings.TrimSuffix(s, suffix)\<close>: the suffix
  is cut once when \<open>s\<close> ends with it, and \<open>s\<close> is returned as it is otherwise.\<close>

definition strings_HasSuffix :: "string \<Rightarrow> string \<Rightarrow> bool" where
  "strings_HasSuffix s suffix \<longleftrightarrow>
     length suffix \<le> length s \<and> drop (length s - length suffix) s = suffix"

definition strings_TrimSuffix :: "string \<Rightarrow> string \<Rightarrow> string" where
  "strings_TrimSuffix s suffix =
     (if strings_HasSuffix s suffix then take (length s - length suffix) s else s)"

subsection \<open>Data\<close>

text \<open>The three strings of \<open>K3sExtraOptions\<close>.\<close>

record K3sExtraOptions =
  ServerInstallOpts :: string
  AgentInstallOpts :: string
  ExtraOptions :: string

text \<open>
  Modelled from the spec: the types \<open>data.Cluster\<close> and \<open>data.Node\<close> (package \<open>data\<close>) and
  the role constants of package \<open>node\<close> are not among the sources. A cluster has a name, a
  spec (software version, login private key) and an ordered collection of nodes; a node
  has a name, a role (primary-candidate, that is master, or secondary), its address and a
  back-reference to the spec of its cluster, a pointer that is nil until the
  orchestrator sets it. Only the fields that the bootstrapper reads are kept.
\<close>

datatype Type = Master | Worker

record ClusterSpec =
  Version :: string
  Prikey :: string

record Node =
  Node_Name :: string
  Node_Role :: Type
  Node_Spec_Cluster :: "ClusterSpec option"
  Node_Status_IPAddresses :: string

record Cluster =
  Cluster_Name :: string
  Cluster_Spec :: ClusterSpec
  Cluster_Nodes :: "Node list"

text \<open>Modelled from the spec: \<open>Node.IsMaster()\<close> is not among the sources; a node is a
  master when its role is primary-candidate.\<close>

definition IsMaster :: "Node \<Rightarrow> bool" where
  "IsMaster n \<longleftrightarrow> Node_Role n = Master"

subsection \<open>Errors\<close>

text \<open>
  An error is a value. \<open>External m\<close> is an error that a collaborator (or the caller's
  pre-hook) returned, with its message; the others are made by the bootstrapper:
  \<open>errors.New\<close>, \<open>errors.WithMessage\<close>/\<open>WithMessagef\<close>, \<open>errors.WithStack\<close> and the
  aggregate of \<open>multierror.Append\<close>. \<open>NilPointerDereference\<close> is the panic of reading
  through a nil back-reference.
\<close>

datatype error =
    External string
  | New string
  | WithMessage error string
  | WithStack error
  | MultiError "error list"
  | NilPointerDereference

text \<open>Modelled from the spec: package \<open>multierror\<close> is a library outside the sources;
  failures are merged into a single combined error. \<open>Append\<close> gives the aggregate of the
  errors of its first argument, if any, followed by those of its second, where an
  aggregate stands for its members.\<close>

fun multierror_members :: "error \<Rightarrow> error list" where
  "multierror_members (MultiError es) = es"
| "multierror_members e = [e]"

definition multierror_Append :: "error option \<Rightarrow> error \<Rightarrow> error" where
  "multierror_Append err e =
     MultiError ((case err of None \<Rightarrow> [] | Some e' \<Rightarrow> multierror_members e')
                 @ multierror_members e)"

subsection \<open>The collaborators and the trace\<close>

text \<open>One event for each call that leaves the bootstrapper, with the call's arguments.\<close>

datatype event =
    CallBefore
  | CallWaitNodesRunning string nat
  | CallGetNode string
  | CallListNodes string
  | CallNewClient string string string string
  | CallRun string "string list"
  | CallClose string

type_synonym trace = "event list"

text \<open>
  The answers of the collaborators and the constants of other packages. Every answer
  takes the trace before the call. \<open>nodeManager_\<close> are the three methods of
  \<open>node.Manager\<close>; \<open>utilssh_NewClient\<close> takes the node's name, the private key, the user
  and the address, and fails or gives a session; \<open>sshClient_Run\<close> takes the node of the
  session and the command lines and gives the error, if any, with the standard output of
  the commands. \<open>retry_more\<close> is the number of attempts that the retry library allows
  after a failed first one (the call site sets no attempt count, so the library's own
  count applies).
\<close>

record Env =
  nodeManager_WaitNodesRunning :: "trace \<Rightarrow> string \<Rightarrow> nat \<Rightarrow> string option"
  nodeManager_GetNode :: "trace \<Rightarrow> string \<Rightarrow> string + Node"
  nodeManager_ListNodes :: "trace \<Rightarrow> string \<Rightarrow> string + Node list"
  utilssh_NewClient :: "trace \<Rightarrow> string \<Rightarrow> string \<Rightarrow> string \<Rightarrow> string \<Rightarrow> string option"
  sshClient_Run :: "trace \<Rightarrow> string \<Rightarrow> string list \<Rightarrow> string option \<times> string"
  node_Name :: "string \<Rightarrow> Type \<Rightarrow> nat \<Rightarrow> string"
  config_K3sVersionsEnvVars :: "string \<Rightarrow> string"
  ParseExtraOptions :: "ClusterSpec \<Rightarrow> K3sExtraOptions \<Rightarrow> K3sExtraOptions"
  script_RemoteScriptUrl :: "string \<Rightarrow> string"
  script_InstallPrerequisitesK3s :: string
  retry_more :: nat

subsection \<open>Initialization: \<open>init\<close>\<close>

text \<open>
  Modelled from the spec: \<open>retry.Do\<close> is a library outside the sources; attempt, on
  failure retry if attempts remain, on exhaustion surface the last failure. The delays
  between attempts are not modelled. The first argument counts the attempts that remain
  after this one.
\<close>

fun retry_Do :: "nat \<Rightarrow> ('s \<Rightarrow> error option \<times> 's) \<Rightarrow> 's \<Rightarrow> error option \<times> 's" where
  "retry_Do k f s =
     (case f s of
        (None, s') \<Rightarrow> (None, s')
      | (Some e, s') \<Rightarrow>
          (case k of 0 \<Rightarrow> (Some e, s') | Suc m \<Rightarrow> retry_Do m f s'))"

text \<open>The four prerequisite commands that \<open>init\<close> runs on a node.\<close>

definition init_cmds :: "Env \<Rightarrow> Cluster \<Rightarrow> string list" where
  "init_cmds env cluster =
     [''swapoff -a'',
      ''curl -sSLO '' @ script_RemoteScriptUrl env (script_InstallPrerequisitesK3s env),
      ''chmod +x '' @ script_InstallPrerequisitesK3s env,
      config_K3sVersionsEnvVars env (Version (Cluster_Spec cluster)) @ '' ./''
        @ script_InstallPrerequisitesK3s env]"

text \<open>
  The closure given to \<open>retry.Do\<close> for node \<open>n\<close>. Its state is the trace and the content
  of the channel \<open>chErr\<close>. A failed \<open>NewClient\<close> is returned to the retry library; a
  failed \<open>Run\<close> is sent to \<open>chErr\<close>, named after the node, and \<open>nil\<close> is returned; the
  deferred \<open>Close\<close> runs last.
\<close>

definition init_retryable ::
  "Env \<Rightarrow> Cluster \<Rightarrow> Node \<Rightarrow> trace \<times> error list \<Rightarrow> error option \<times> trace \<times> error list" where
  "init_retryable env cluster n s =
     (case s of (t, chErr) \<Rightarrow>
        (let t1 = t @ [CallNewClient (Node_Name n) (Prikey (Cluster_Spec cluster)) ''root''
                        (Node_Status_IPAddresses n)]
         in (case utilssh_NewClient env t (Node_Name n) (Prikey (Cluster_Spec cluster)) ''root''
                    (Node_Status_IPAddresses n) of
               Some e \<Rightarrow> (Some (External e), t1, chErr)
             | None \<Rightarrow>
                 (let cmds = init_cmds env cluster;
                      t2 = t1 @ [CallRun (Node_Name n) cmds]
                  in (case fst (sshClient_Run env t1 (Node_Name n) cmds) of
                        Some e \<Rightarrow>
                          (None, t2 @ [CallClose (Node_Name n)],
                           chErr @ [WithMessage (External e)
                                      (''failed on node ('' @ Node_Name n @ '')'')])
                      | None \<Rightarrow> (None, t2 @ [CallClose (Node_Name n)], chErr))))))"

text \<open>
  The tasks of the nodes. The source starts one goroutine per node and waits for all of
  them; the model runs them one after the other in the order of \<open>cluster.Nodes\<close>, which
  is one of the schedules. The result of \<open>retry.Do\<close> is discarded (\<open>_ = retry.Do(...)\<close>).
\<close>

fun init_tasks :: "Env \<Rightarrow> Cluster \<Rightarrow> Node list \<Rightarrow> trace \<times> error list \<Rightarrow> trace \<times> error list" where
  "init_tasks env cluster [] s = s"
| "init_tasks env cluster (n # ns) s =
     init_tasks env cluster ns (snd (retry_Do (retry_more env) (init_retryable env cluster n) s))"

text \<open>The loop that empties the closed channel into one error.\<close>

fun init_collect :: "error option \<Rightarrow> error list \<Rightarrow> error option" where
  "init_collect err [] = err"
| "init_collect err (e # es) = init_collect (Some (multierror_Append err e)) es"

definition init :: "Env \<Rightarrow> Cluster \<Rightarrow> trace \<Rightarrow> error option \<times> trace" where
  "init env cluster t =
     (case init_tasks env cluster (Cluster_Nodes cluster) (t, []) of
        (t', chErr) \<Rightarrow> (init_collect None chErr, t'))"

subsection \<open>Bootstrap: \<open>bootstrap\<close>\<close>

definition bootstrap_k3sOpts :: "Node \<Rightarrow> bool \<Rightarrow> K3sExtraOptions \<Rightarrow> string list" where
  "bootstrap_k3sOpts node isSingleNode extraOptions =
     (let k3sOpts = [''--bind-address='' @ Node_Status_IPAddresses node];
          k3sOpts = (if \<not> isSingleNode then k3sOpts @ [''--cluster-init''] else k3sOpts);
          k3sOpts = (if ServerInstallOpts extraOptions \<noteq> ''''
                     then k3sOpts @ [ServerInstallOpts extraOptions] else k3sOpts)
      in k3sOpts)"

definition bootstrap_cmdline :: "Node \<Rightarrow> bool \<Rightarrow> K3sExtraOptions \<Rightarrow> string" where
  "bootstrap_cmdline node isSingleNode extraOptions =
     ''INSTALL_K3S_EXEC='' @ [dquote]
       @ strings_Join (bootstrap_k3sOpts node isSingleNode extraOptions) '' '' @ [dquote]
       @ '' '' @ ExtraOptions extraOptions @ '' k3s-install.sh ''"

definition token_cmdline :: string where
  "token_cmdline = ''cat /var/lib/rancher/k3s/server/node-token''"

text \<open>
  \<open>bootstrap\<close>: a session to the node, the install command, then the command that reads
  the token file with its standard output captured in \<open>tokenBuf\<close>. The private key is read
  through the node's back-reference.
\<close>

definition bootstrap ::
  "Env \<Rightarrow> Node \<Rightarrow> bool \<Rightarrow> K3sExtraOptions \<Rightarrow> trace \<Rightarrow> (error + string) \<times> trace" where
  "bootstrap env node isSingleNode extraOptions t =
     (case Node_Spec_Cluster node of
        None \<Rightarrow> (Inl NilPointerDereference, t)
      | Some spec \<Rightarrow>
          (let t1 = t @ [CallNewClient (Node_Name node) (Prikey spec) ''root''
                          (Node_Status_IPAddresses node)]
           in (case utilssh_NewClient env t (Node_Name node) (Prikey spec) ''root''
                      (Node_Status_IPAddresses node) of
                 Some e \<Rightarrow> (Inl (External e), t1)
               | None \<Rightarrow>
                   (let c1 = bootstrap_cmdline node isSingleNode extraOptions;
                        t2 = t1 @ [CallRun (Node_Name node) [c1]]
                    in (case fst (sshClient_Run env t1 (Node_Name node) [c1]) of
                          Some e \<Rightarrow>
                            (Inl (WithStack (External e)), t2 @ [CallClose (Node_Name node)])
                        | None \<Rightarrow>
                            (let t3 = t2 @ [CallRun (Node_Name node) [token_cmdline]]
                             in (case sshClient_Run env t2 (Node_Name node) [token_cmdline] of
                                   (Some e, tokenBuf) \<Rightarrow>
                                     (Inl (WithStack (External e)),
                                      t3 @ [CallClose (Node_Name node)])
                                 | (None, tokenBuf) \<Rightarrow>
                                     (Inr (strings_TrimSuffix tokenBuf [newline]),
                                      t3 @ [CallClose (Node_Name node)]))))))))"

subsection \<open>Join: \<open>join\<close>\<close>

definition join_k3sOpts :: "Node \<Rightarrow> K3sExtraOptions \<Rightarrow> string list" where
  "join_k3sOpts node extraOptions =
     (if IsMaster node
      then (if ServerInstallOpts extraOptions \<noteq> ''''
            then [''--server''] @ [ServerInstallOpts extraOptions] else [''--server''])
      else (if AgentInstallOpts extraOptions \<noteq> ''''
            then [AgentInstallOpts extraOptions] else []))"

definition join_cmdline :: "Node \<Rightarrow> string \<Rightarrow> string \<Rightarrow> K3sExtraOptions \<Rightarrow> string" where
  "join_cmdline node apiServerAddress joinToken extraOptions =
     (let cmd = ''K3S_URL=https://'' @ apiServerAddress @ '':6443 K3S_TOKEN='' @ joinToken
                  @ '' k3s-install.sh''
      in (''INSTALL_K3S_EXEC='' @ [dquote]
            @ strings_Join (join_k3sOpts node extraOptions) '' '' @ [dquote]
            @ '' '' @ ExtraOptions extraOptions) @ cmd)"

definition join ::
  "Env \<Rightarrow> Node \<Rightarrow> string \<Rightarrow> string \<Rightarrow> K3sExtraOptions \<Rightarrow> trace \<Rightarrow> error option \<times> trace" where
  "join env node apiServerAddress joinToken extraOptions t =
     (case Node_Spec_Cluster node of
        None \<Rightarrow> (Some NilPointerDereference, t)
      | Some spec \<Rightarrow>
          (let t1 = t @ [CallNewClient (Node_Name node) (Prikey spec) ''root''
                          (Node_Status_IPAddresses node)]
           in (case utilssh_NewClient env t (Node_Name node) (Prikey spec) ''root''
                      (Node_Status_IPAddresses node) of
                 Some e \<Rightarrow> (Some (External e), t1)
               | None \<Rightarrow>
                   (let cmd = join_cmdline node apiServerAddress joinToken extraOptions;
                        t2 = t1 @ [CallRun (Node_Name node) [cmd]]
                    in (case fst (sshClient_Run env t1 (Node_Name node) [cmd]) of
                          Some e \<Rightarrow>
                            (Some (WithStack (External e)), t2 @ [CallClose (Node_Name node)])
                        | None \<Rightarrow> (None, t2 @ [CallClose (Node_Name node)]))))))"

subsection \<open>The orchestrator: \<open>Deploy\<close>\<close>

text \<open>The loop over the listed nodes at the end of \<open>Deploy\<close>: the primary is skipped,
  every other node gets its back-reference and is joined, and the first error returns.\<close>

fun Deploy_join_nodes ::
  "Env \<Rightarrow> Cluster \<Rightarrow> Node \<Rightarrow> string \<Rightarrow> K3sExtraOptions \<Rightarrow> Node list \<Rightarrow> trace
     \<Rightarrow> error option \<times> trace" where
  "Deploy_join_nodes env cluster firstMaster joinToken extraOptions [] t = (None, t)"
| "Deploy_join_nodes env cluster firstMaster joinToken extraOptions (n # ns) t =
     (if Node_Name n = Node_Name firstMaster
      then Deploy_join_nodes env cluster firstMaster joinToken extraOptions ns t
      else
        (case join env (n\<lparr>Node_Spec_Cluster := Some (Cluster_Spec cluster)\<rparr>)
                (Node_Status_IPAddresses firstMaster) joinToken extraOptions t of
           (Some err, t') \<Rightarrow> (Some err, t')
         | (None, t') \<Rightarrow>
             Deploy_join_nodes env cluster firstMaster joinToken extraOptions ns t'))"

text \<open>The caller's pre-hook \<open>before\<close>, which may be nil.\<close>

definition Deploy_before :: "(trace \<Rightarrow> string option) option \<Rightarrow> trace \<Rightarrow> error option \<times> trace" where
  "Deploy_before before_hook t =
     (case before_hook of
        None \<Rightarrow> (None, t)
      | Some b \<Rightarrow>
          (case b t of
             Some e \<Rightarrow> (Some (External e), t @ [CallBefore])
           | None \<Rightarrow> (None, t @ [CallBefore])))"

definition Deploy_extraOptions :: "Env \<Rightarrow> Cluster \<Rightarrow> K3sExtraOptions" where
  "Deploy_extraOptions env cluster =
     ParseExtraOptions env (Cluster_Spec cluster)
       \<lparr>ServerInstallOpts = '''', AgentInstallOpts = '''',
        ExtraOptions = config_K3sVersionsEnvVars env (Version (Cluster_Spec cluster))\<rparr>"

text \<open>
  The first part of \<open>Deploy\<close>, up to the join token: the pre-hook, the wait for the nodes,
  \<open>init\<close>, the primary by its conventional name, \<open>bootstrap\<close>. \<open>Inl\<close> is what \<open>Deploy\<close>
  returns when it stops there; \<open>Inr\<close> carries \<open>firstMaster\<close>, \<open>joinToken\<close> and
  \<open>extraOptions\<close> to the second part.
\<close>

definition Deploy_bootstrapped ::
  "Env \<Rightarrow> Cluster \<Rightarrow> (trace \<Rightarrow> string option) option \<Rightarrow> trace
     \<Rightarrow> (error \<times> trace) + ((Node \<times> string \<times> K3sExtraOptions) \<times> trace)" where
  "Deploy_bootstrapped env cluster before_hook t =
     (case Deploy_before before_hook t of
        (Some err, t0) \<Rightarrow> Inl (err, t0)
      | (None, t0) \<Rightarrow>
          (let extraOptions = Deploy_extraOptions env cluster;
               t1 = t0 @ [CallWaitNodesRunning (Cluster_Name cluster) 5]
           in (case nodeManager_WaitNodesRunning env t0 (Cluster_Name cluster) 5 of
                 Some e \<Rightarrow> Inl (WithMessage (External e) ''some nodes are not running'', t1)
               | None \<Rightarrow>
                   (case init env cluster t1 of
                      (Some err, t2) \<Rightarrow> Inl (err, t2)
                    | (None, t2) \<Rightarrow>
                        (let name = node_Name env (Cluster_Name cluster) Master 1;
                             t3 = t2 @ [CallGetNode name]
                         in (case nodeManager_GetNode env t2 name of
                               Inl e \<Rightarrow> Inl (External e, t3)
                             | Inr fm \<Rightarrow>
                                 (let firstMaster =
                                        fm\<lparr>Node_Spec_Cluster := Some (Cluster_Spec cluster)\<rparr>
                                  in (case bootstrap env firstMaster
                                             (length (Cluster_Nodes cluster) = 1) extraOptions t3 of
                                        (Inl err, t4) \<Rightarrow> Inl (err, t4)
                                      | (Inr joinToken, t4) \<Rightarrow>
                                          Inr ((firstMaster, joinToken, extraOptions), t4)))))))))"

text \<open>The second part of \<open>Deploy\<close>: the nodes are listed again, an empty list is an
  error, and the listed nodes are joined.\<close>

definition Deploy_joins ::
  "Env \<Rightarrow> Cluster \<Rightarrow> Node \<Rightarrow> string \<Rightarrow> K3sExtraOptions \<Rightarrow> trace \<Rightarrow> error option \<times> trace" where
  "Deploy_joins env cluster firstMaster joinToken extraOptions t =
     (let t1 = t @ [CallListNodes (Cluster_Name cluster)]
      in (case nodeManager_ListNodes env t (Cluster_Name cluster) of
            Inl e \<Rightarrow> (Some (External e), t1)
          | Inr nodes \<Rightarrow>
              (if length nodes = 0 then (Some (New ''no nodes available''), t1)
               else Deploy_join_nodes env cluster firstMaster joinToken extraOptions nodes t1)))"

definition Deploy ::
  "Env \<Rightarrow> Cluster \<Rightarrow> (trace \<Rightarrow> string option) option \<Rightarrow> trace \<Rightarrow> error option \<times> trace" where
  "Deploy env cluster before_hook t =
     (case Deploy_bootstrapped env cluster before_hook t of
        Inl (err, t') \<Rightarrow> (Some err, t')
      | Inr ((firstMaster, joinToken, extraOptions), t') \<Rightarrow>
          Deploy_joins env cluster firstMaster joinToken extraOptions t')"

subsection \<open>Observations on traces\<close>

text \<open>The nodes to which a session was requested, and the command batches that were run
  with their nodes, in the order of the trace.\<close>

fun connect_of :: "event \<Rightarrow> string list" where
  "connect_of (CallNewClient name key user addr) = [name]"
| "connect_of ev = []"

definition connects :: "trace \<Rightarrow> string list" where
  "connects t = concat (map connect_of t)"

fun run_of :: "event \<Rightarrow> (string \<times> string list) list" where
  "run_of (CallRun name cmds) = [(name, cmds)]"
| "run_of ev = []"

definition runs :: "trace \<Rightarrow> (string \<times> string list) list" where
  "runs t = concat (map run_of t)"

text \<open>What the initialization of the nodes \<open>N\<close> may do to the trace and to the channel:
  the trace grows, every command batch that is run is the prerequisite batch, and every
  error that is sent to the channel is the failure of a command batch, named after a node
  of \<open>N\<close>.\<close>

definition init_effect ::
  "Env \<Rightarrow> Cluster \<Rightarrow> Node set \<Rightarrow> trace \<times> error list \<Rightarrow> trace \<times> error list \<Rightarrow> bool" where
  "init_effect env cluster N s s' \<longleftrightarrow>
     (\<exists>added errs.
        fst s' = fst s @ added \<and> snd s' = snd s @ errs
      \<and> (\<forall>name cmds. (name, cmds) \<in> set (runs added) \<longrightarrow> cmds = init_cmds env cluster)
      \<and> (\<forall>e \<in> set errs. \<exists>n \<in> N. \<exists>m.
             e = WithMessage (External m) (''failed on node ('' @ Node_Name n @ '')'')))"

text \<open>The nodes that the loop of \<open>Deploy\<close> joins: the listed nodes whose name is not the
  primary's, in the order of the listing.\<close>

definition Deploy_join_targets :: "Node \<Rightarrow> Node list \<Rightarrow> Node list" where
  "Deploy_join_targets firstMaster nodes =
     filter (\<lambda>n. Node_Name n \<noteq> Node_Name firstMaster) nodes"

text \<open>The join token that \<open>Deploy\<close> holds after a successful bootstrap, if it gets
  there.\<close>

definition Deploy_joinToken ::
  "Env \<Rightarrow> Cluster \<Rightarrow> (trace \<Rightarrow> string option) option \<Rightarrow> trace \<Rightarrow> string option" where
  "Deploy_joinToken env cluster before_hook t =
     (case Deploy_bootstrapped env cluster before_hook t of
        Inl x \<Rightarrow> None
      | Inr ((firstMaster, joinToken, extraOptions), t') \<Rightarrow> Some joinToken)"

subsection \<open>A concrete cluster and its collaborators\<close>

text \<open>
  The cluster \<open>demo\<close> with a master and workers, and collaborators that answer as follows:
  the wait succeeds, the primary is found under its conventional name, the listing is
  \<open>listed\<close>, a session to a node is refused as \<open>connect\<close> says, and a command batch fails or
  prints as \<open>run\<close> says.
\<close>

definition demo_spec :: ClusterSpec where
  "demo_spec = \<lparr>Version = ''v1.18.8'', Prikey = ''id_rsa''\<rparr>"

definition demo_node :: "string \<Rightarrow> Type \<Rightarrow> string \<Rightarrow> Node" where
  "demo_node name role addr =
     \<lparr>Node_Name = name, Node_Role = role, Node_Spec_Cluster = None,
      Node_Status_IPAddresses = addr\<rparr>"

definition demo_master :: Node where
  "demo_master = demo_node ''demo-master-1'' Master ''10.0.0.1''"

definition demo_worker1 :: Node where
  "demo_worker1 = demo_node ''demo-worker-1'' Worker ''10.0.0.2''"

definition demo_worker2 :: Node where
  "demo_worker2 = demo_node ''demo-worker-2'' Worker ''10.0.0.3''"

definition demo_cluster :: "Node list \<Rightarrow> Cluster" where
  "demo_cluster nodes =
     \<lparr>Cluster_Name = ''demo'', Cluster_Spec = demo_spec, Cluster_Nodes = nodes\<rparr>"

definition demo_env ::
  "Node list \<Rightarrow> (trace \<Rightarrow> string \<Rightarrow> string option)
     \<Rightarrow> (string \<Rightarrow> string list \<Rightarrow> string option \<times> string) \<Rightarrow> nat \<Rightarrow> Env" where
  "demo_env listed connect run k =
     \<lparr>nodeManager_WaitNodesRunning = (\<lambda>t c n. None),
      nodeManager_GetNode =
        (\<lambda>t name. if name = ''demo-master-1'' then Inr demo_master else Inl ''node not found''),
      nodeManager_ListNodes = (\<lambda>t c. Inr listed),
      utilssh_NewClient = (\<lambda>t name key user addr. connect t name),
      sshClient_Run = (\<lambda>t name cmds. run name cmds),
      node_Name =
        (\<lambda>c role i. c @ (case role of Master \<Rightarrow> ''-master-'' | Worker \<Rightarrow> ''-worker-'')
           @ (if i = 1 then ''1'' else ''n'')),
      config_K3sVersionsEnvVars = (\<lambda>v. ''INSTALL_K3S_VERSION='' @ v),
      ParseExtraOptions = (\<lambda>spec opts. opts),
      script_RemoteScriptUrl = (\<lambda>s. ''https://example.org/'' @ s),
      script_InstallPrerequisitesK3s = ''install-prerequisites-k3s.sh'',
      retry_more = k\<rparr>"

text \<open>Every session is granted; every command succeeds, and reading the token file
  prints \<open>out\<close>.\<close>

definition connect_ok :: "trace \<Rightarrow> string \<Rightarrow> string option" where
  "connect_ok t name = None"

definition run_ok :: "string \<Rightarrow> string \<Rightarrow> string list \<Rightarrow> string option \<times> string" where
  "run_ok out name cmds = (None, if cmds = [token_cmdline] then out else [])"

text \<open>Sessions to the node \<open>bad\<close> are refused, all others are granted.\<close>

definition connect_refused :: "string \<Rightarrow> trace \<Rightarrow> string \<Rightarrow> string option" where
  "connect_refused bad t name = (if name = bad then Some ''connection refused'' else None)"

text \<open>The first session to the node \<open>bad\<close> is refused, every later one is granted.\<close>

definition connect_late :: "string \<Rightarrow> trace \<Rightarrow> string \<Rightarrow> string option" where
  "connect_late bad t name =
     (if name = bad \<and> bad \<notin> set (connects t) then Some ''connection refused'' else None)"

text \<open>Commands on the node \<open>bad\<close> fail, unless they are the prerequisite batch of four
  commands; everything else is as in \<open>run_ok\<close>.\<close>

definition run_join_fails :: "string \<Rightarrow> string \<Rightarrow> string \<Rightarrow> string list \<Rightarrow> string option \<times> string" where
  "run_join_fails bad out name cmds =
     (if name = bad \<and> length cmds = 1 then (Some ''exit status 1'', []) else run_ok out name cmds)"

text \<open>Every command batch on the node \<open>bad\<close> fails; everything else is as in
  \<open>run_ok\<close>.\<close>

definition run_fails :: "string \<Rightarrow> string \<Rightarrow> string \<Rightarrow> string list \<Rightarrow> string option \<times> string" where
  "run_fails bad out name cmds =
     (if name = bad then (Some ''exit status 1'', []) else run_ok out name cmds)"

text \<open>The collaborators of \<open>demo_env\<close>, but the wait for the nodes runs out.\<close>

definition demo_env_not_ready :: Env where
  "demo_env_not_ready =
     (demo_env [demo_master, demo_worker1] connect_ok (run_ok ''K10secret'') 0)
       \<lparr>nodeManager_WaitNodesRunning := (\<lambda>t c n. Some ''timed out'')\<rparr>"

section \<open>Properties\<close>

subsection \<open>Traces of the operations\<close>

text \<open>Every operation extends the trace that it is given; the lemmas say by which
  events.\<close>

lemma connects_simps [simp]:
  "connects [] = []"
  "connects (t1 @ t2) = connects t1 @ connects t2"
  "connects (CallNewClient n k u a # t) = n # connects t"
  "connects (CallRun n c # t) = connects t"
  "connects (CallClose n # t) = connects t"
  "connects (CallListNodes n # t) = connects t"
  "connects (CallGetNode n # t) = connects t"
  "connects (CallWaitNodesRunning n i # t) = connects t"
  "connects (CallBefore # t) = connects t"
  by (simp_all add: connects_def)

lemma runs_simps [simp]:
  "runs [] = []"
  "runs (t1 @ t2) = runs t1 @ runs t2"
  "runs (CallNewClient n k u a # t) = runs t"
  "runs (CallRun n c # t) = (n, c) # runs t"
  "runs (CallClose n # t) = runs t"
  "runs (CallListNodes n # t) = runs t"
  "runs (CallGetNode n # t) = runs t"
  "runs (CallWaitNodesRunning n i # t) = runs t"
  "runs (CallBefore # t) = runs t"
  by (simp_all add: runs_def)

lemma strings_TrimSuffix_newline:
  "strings_TrimSuffix s [newline] = (if s \<noteq> [] \<and> last s = newline then butlast s else s)"
proof (cases s rule: rev_cases)
  case Nil
  then show ?thesis by (simp add: strings_TrimSuffix_def strings_HasSuffix_def)
next
  case (snoc ys y)
  then show ?thesis by (simp add: strings_TrimSuffix_def strings_HasSuffix_def)
qed


lemma init_retryable_cases:
  assumes "init_retryable env cluster n (t, chErr) = (r, t', chErr')"
  shows "(\<exists>e. utilssh_NewClient env t (Node_Name n) (Prikey (Cluster_Spec cluster)) ''root''
              (Node_Status_IPAddresses n) = Some e
            \<and> r = Some (External e) \<and> chErr' = chErr
            \<and> t' = t @ [CallNewClient (Node_Name n) (Prikey (Cluster_Spec cluster)) ''root''
                          (Node_Status_IPAddresses n)])
       \<or> (utilssh_NewClient env t (Node_Name n) (Prikey (Cluster_Spec cluster)) ''root''
              (Node_Status_IPAddresses n) = None
            \<and> r = None
            \<and> t' = t @ [CallNewClient (Node_Name n) (Prikey (Cluster_Spec cluster)) ''root''
                          (Node_Status_IPAddresses n),
                        CallRun (Node_Name n) (init_cmds env cluster), CallClose (Node_Name n)]
            \<and> (chErr' = chErr
                \<or> (\<exists>e. chErr' = chErr @ [WithMessage (External e)
                                           (''failed on node ('' @ Node_Name n @ '')'')])))"
  using assms
  by (auto simp: init_retryable_def Let_def split: option.splits)

lemma retry_init_trace:
  assumes "retry_Do k (init_retryable env cluster n) (t, chErr) = (r, t', chErr')"
  shows "\<exists>added. t' = t @ added
           \<and> length (runs added) \<le> 1
           \<and> 1 \<le> length (connects added) \<and> length (connects added) \<le> Suc k
           \<and> (length (runs added) = 1 \<longleftrightarrow> r = None)
           \<and> (utilssh_NewClient env t (Node_Name n) (Prikey (Cluster_Spec cluster)) ''root''
                 (Node_Status_IPAddresses n) = None \<longrightarrow> length (connects added) = 1)"
  using assms
proof (induction k arbitrary: t chErr)
  case 0
  obtain r1 t1 c1 where f: "init_retryable env cluster n (t, chErr) = (r1, t1, c1)"
    by (metis prod_cases3)
  from init_retryable_cases[OF f] 0 f show ?case
    by (auto split: option.splits)
next
  case (Suc k)
  obtain r1 t1 c1 where f: "init_retryable env cluster n (t, chErr) = (r1, t1, c1)"
    by (metis prod_cases3)
  show ?case
  proof (cases r1)
    case None
    with init_retryable_cases[OF f] Suc.prems f show ?thesis
      by auto
  next
    case (Some e)
    with Suc.prems f have "retry_Do k (init_retryable env cluster n) (t1, c1) = (r, t', chErr')"
      by simp
    from Suc.IH[OF this] obtain added where a: "t' = t1 @ added" "length (runs added) \<le> 1"
      "1 \<le> length (connects added)" "length (connects added) \<le> Suc k"
      "length (runs added) = 1 \<longleftrightarrow> r = None" by blast
    from init_retryable_cases[OF f] Some have
      t1: "t1 = t @ [CallNewClient (Node_Name n) (Prikey (Cluster_Spec cluster)) ''root''
                          (Node_Status_IPAddresses n)]"
      and nc: "utilssh_NewClient env t (Node_Name n) (Prikey (Cluster_Spec cluster)) ''root''
              (Node_Status_IPAddresses n) \<noteq> None"
      by auto
    show ?thesis
      apply (rule exI[of _ "CallNewClient (Node_Name n) (Prikey (Cluster_Spec cluster)) ''root''
                          (Node_Status_IPAddresses n) # added"])
      using a t1 nc by auto
  qed
qed

lemma join_trace:
  assumes "join env node addr tok opts t = (r, t')"
    and "Node_Spec_Cluster node = Some spec"
  shows "(\<exists>e. r = Some (External e)
            \<and> utilssh_NewClient env t (Node_Name node) (Prikey spec) ''root''
                 (Node_Status_IPAddresses node) = Some e
            \<and> t' = t @ [CallNewClient (Node_Name node) (Prikey spec) ''root''
                          (Node_Status_IPAddresses node)])
       \<or> (utilssh_NewClient env t (Node_Name node) (Prikey spec) ''root''
                 (Node_Status_IPAddresses node) = None
           \<and> (r = None \<or> (\<exists>e. r = Some (WithStack (External e))))
           \<and> t' = t @ [CallNewClient (Node_Name node) (Prikey spec) ''root''
                          (Node_Status_IPAddresses node),
                        CallRun (Node_Name node) [join_cmdline node addr tok opts],
                        CallClose (Node_Name node)])"
  using assms
  by (auto simp: join_def Let_def split: option.splits)

lemma bootstrap_trace:
  assumes "bootstrap env node single opts t = (Inr tok, t')"
  shows "\<exists>spec tokenBuf.
           Node_Spec_Cluster node = Some spec
         \<and> t' = t @ [CallNewClient (Node_Name node) (Prikey spec) ''root''
                        (Node_Status_IPAddresses node),
                      CallRun (Node_Name node) [bootstrap_cmdline node single opts],
                      CallRun (Node_Name node) [token_cmdline],
                      CallClose (Node_Name node)]
         \<and> sshClient_Run env
              (t @ [CallNewClient (Node_Name node) (Prikey spec) ''root''
                        (Node_Status_IPAddresses node),
                      CallRun (Node_Name node) [bootstrap_cmdline node single opts]])
              (Node_Name node) [token_cmdline] = (None, tokenBuf)
         \<and> tok = strings_TrimSuffix tokenBuf [newline]"
  using assms
  by (auto simp: bootstrap_def Let_def split: option.splits prod.splits)

lemma bootstrap_extends:
  "bootstrap env node single opts t = (r, t') \<Longrightarrow> \<exists>added. t' = t @ added"
  by (auto simp: bootstrap_def Let_def split: option.splits prod.splits)

lemma join_extends:
  "join env node addr tok opts t = (r, t') \<Longrightarrow> \<exists>added. t' = t @ added"
  by (auto simp: join_def Let_def split: option.splits prod.splits)

lemma retry_init_extends:
  "retry_Do k (init_retryable env cluster n) s = (r, s') \<Longrightarrow> \<exists>added. fst s' = fst s @ added"
  using retry_init_trace[of k env cluster n "fst s" "snd s" r "fst s'" "snd s'"] by auto

lemma init_tasks_extends:
  "init_tasks env cluster ns s = s' \<Longrightarrow> \<exists>added. fst s' = fst s @ added"
proof (induction ns arbitrary: s)
  case Nil
  then show ?case by simp
next
  case (Cons n ns)
  obtain r s1 where r: "retry_Do (retry_more env) (init_retryable env cluster n) s = (r, s1)"
    by (metis surj_pair)
  with Cons.prems have "init_tasks env cluster ns s1 = s'" by simp
  from Cons.IH[OF this] retry_init_extends[OF r] show ?case by auto
qed

lemma init_extends:
  "init env cluster t = (r, t') \<Longrightarrow> \<exists>added. t' = t @ added"
  using init_tasks_extends[of env cluster "Cluster_Nodes cluster" "(t, [])"]
  by (auto simp: init_def split: prod.splits)


lemma Deploy_join_nodes_extends:
  "Deploy_join_nodes env cluster fm tok opts nodes t = (r, t') \<Longrightarrow> \<exists>added. t' = t @ added"
proof (induction nodes arbitrary: t)
  case Nil
  then show ?case by simp
next
  case (Cons n ns)
  show ?case
  proof (cases "Node_Name n = Node_Name fm")
    case True
    with Cons show ?thesis by simp
  next
    case False
    obtain r1 t1 where j: "join env (n\<lparr>Node_Spec_Cluster := Some (Cluster_Spec cluster)\<rparr>)
        (Node_Status_IPAddresses fm) tok opts t = (r1, t1)" by (metis surj_pair)
    from join_extends[OF j] obtain a1 where a1: "t1 = t @ a1" by blast
    show ?thesis
    proof (cases r1)
      case None
      with Cons.prems False j have "Deploy_join_nodes env cluster fm tok opts ns t1 = (r, t')"
        by simp
      from Cons.IH[OF this] a1 show ?thesis by auto
    next
      case (Some e)
      with Cons.prems False j a1 show ?thesis by auto
    qed
  qed
qed

lemma Deploy_join_nodes_runs:
  assumes "Deploy_join_nodes env cluster fm tok opts nodes t = (r, t')"
  shows "\<exists>added. t' = t @ added
           \<and> (\<forall>name cmds. (name, cmds) \<in> set (runs added) \<longrightarrow>
                (\<exists>n \<in> set nodes. Node_Name n \<noteq> Node_Name fm \<and> name = Node_Name n
                   \<and> cmds = [join_cmdline (n\<lparr>Node_Spec_Cluster := Some (Cluster_Spec cluster)\<rparr>)
                               (Node_Status_IPAddresses fm) tok opts]))"
  using assms
proof (induction nodes arbitrary: t)
  case Nil
  then show ?case by simp
next
  case (Cons n ns)
  show ?case
  proof (cases "Node_Name n = Node_Name fm")
    case True
    with Cons.prems have "Deploy_join_nodes env cluster fm tok opts ns t = (r, t')" by simp
    from Cons.IH[OF this] show ?thesis by auto
  next
    case False
    let ?n = "n\<lparr>Node_Spec_Cluster := Some (Cluster_Spec cluster)\<rparr>"
    obtain r1 t1 where j: "join env ?n (Node_Status_IPAddresses fm) tok opts t = (r1, t1)"
      by (metis surj_pair)
    have sc: "Node_Spec_Cluster ?n = Some (Cluster_Spec cluster)" by simp
    from join_trace[OF j sc] obtain a1 where a1: "t1 = t @ a1"
      and r1: "\<forall>name cmds. (name, cmds) \<in> set (runs a1) \<longrightarrow>
                 name = Node_Name n \<and> cmds = [join_cmdline ?n (Node_Status_IPAddresses fm) tok opts]"
      by auto
    show ?thesis
    proof (cases r1)
      case None
      with Cons.prems False j have "Deploy_join_nodes env cluster fm tok opts ns t1 = (r, t')"
        by simp
      from Cons.IH[OF this] obtain a2 where a2: "t' = t1 @ a2"
        and r2: "\<forall>name cmds. (name, cmds) \<in> set (runs a2) \<longrightarrow>
                (\<exists>n \<in> set ns. Node_Name n \<noteq> Node_Name fm \<and> name = Node_Name n
                   \<and> cmds = [join_cmdline (n\<lparr>Node_Spec_Cluster := Some (Cluster_Spec cluster)\<rparr>)
                               (Node_Status_IPAddresses fm) tok opts])" by blast
      show ?thesis
        apply (rule exI[of _ "a1 @ a2"])
        using a1 a2 r1 r2 False by auto
    next
      case (Some e)
      with Cons.prems False j have "t' = t1" by simp
      then show ?thesis
        apply (intro exI[of _ a1])
        using a1 r1 False by auto
    qed
  qed
qed

lemma Deploy_join_nodes_None:
  assumes "Deploy_join_nodes env cluster fm tok opts nodes t = (None, t')"
  shows "\<exists>added. t' = t @ added
           \<and> connects added = map Node_Name (filter (\<lambda>n. Node_Name n \<noteq> Node_Name fm) nodes)"
  using assms
proof (induction nodes arbitrary: t)
  case Nil
  then show ?case by simp
next
  case (Cons n ns)
  show ?case
  proof (cases "Node_Name n = Node_Name fm")
    case True
    with Cons.prems have "Deploy_join_nodes env cluster fm tok opts ns t = (None, t')" by simp
    from Cons.IH[OF this] True show ?thesis by auto
  next
    case False
    let ?n = "n\<lparr>Node_Spec_Cluster := Some (Cluster_Spec cluster)\<rparr>"
    obtain r1 t1 where j: "join env ?n (Node_Status_IPAddresses fm) tok opts t = (r1, t1)"
      by (metis surj_pair)
    have sc: "Node_Spec_Cluster ?n = Some (Cluster_Spec cluster)" by simp
    from join_trace[OF j sc] obtain a1 where a1: "t1 = t @ a1" "connects a1 = [Node_Name n]"
      by auto
    from Cons.prems False j have r1: "r1 = None"
      by (cases r1) auto
    with Cons.prems False j have "Deploy_join_nodes env cluster fm tok opts ns t1 = (None, t')"
      by simp
    from Cons.IH[OF this] obtain a2 where "t' = t1 @ a2"
      "connects a2 = map Node_Name (filter (\<lambda>n. Node_Name n \<noteq> Node_Name fm) ns)" by blast
    with a1 False show ?thesis
      by (intro exI[of _ "a1 @ a2"]) auto
  qed
qed

lemma Deploy_join_nodes_Some:
  assumes "Deploy_join_nodes env cluster fm tok opts nodes t = (Some e, t')"
  shows "\<exists>pre n post t0.
           nodes = pre @ n # post \<and> Node_Name n \<noteq> Node_Name fm
         \<and> Deploy_join_nodes env cluster fm tok opts pre t = (None, t0)
         \<and> join env (n\<lparr>Node_Spec_Cluster := Some (Cluster_Spec cluster)\<rparr>)
              (Node_Status_IPAddresses fm) tok opts t0 = (Some e, t')"
  using assms
proof (induction nodes arbitrary: t)
  case Nil
  then show ?case by simp
next
  case (Cons n ns)
  show ?case
  proof (cases "Node_Name n = Node_Name fm")
    case True
    with Cons.prems have "Deploy_join_nodes env cluster fm tok opts ns t = (Some e, t')" by simp
    from Cons.IH[OF this] obtain pre m post t0 where
      "ns = pre @ m # post" "Node_Name m \<noteq> Node_Name fm"
      "Deploy_join_nodes env cluster fm tok opts pre t = (None, t0)"
      "join env (m\<lparr>Node_Spec_Cluster := Some (Cluster_Spec cluster)\<rparr>)
              (Node_Status_IPAddresses fm) tok opts t0 = (Some e, t')" by blast
    with True show ?thesis
      by (intro exI[of _ "n # pre"] exI[of _ m] exI[of _ post] exI[of _ t0]) simp
  next
    case False
    let ?n = "n\<lparr>Node_Spec_Cluster := Some (Cluster_Spec cluster)\<rparr>"
    obtain r1 t1 where j: "join env ?n (Node_Status_IPAddresses fm) tok opts t = (r1, t1)"
      by (metis surj_pair)
    show ?thesis
    proof (cases r1)
      case None
      with Cons.prems False j have "Deploy_join_nodes env cluster fm tok opts ns t1 = (Some e, t')"
        by simp
      from Cons.IH[OF this] obtain pre m post t0 where
        "ns = pre @ m # post" "Node_Name m \<noteq> Node_Name fm"
        "Deploy_join_nodes env cluster fm tok opts pre t1 = (None, t0)"
        "join env (m\<lparr>Node_Spec_Cluster := Some (Cluster_Spec cluster)\<rparr>)
              (Node_Status_IPAddresses fm) tok opts t0 = (Some e, t')" by blast
      with False j None show ?thesis
        by (intro exI[of _ "n # pre"] exI[of _ m] exI[of _ post] exI[of _ t0]) simp
    next
      case (Some e1)
      with Cons.prems False j have "e1 = e" "t1 = t'" by auto
      with False j Some show ?thesis
        by (intro exI[of _ "[]"] exI[of _ n] exI[of _ ns] exI[of _ t]) simp
    qed
  qed
qed

text \<open>The equations that evaluate the model and the concrete collaborators.\<close>

lemmas model_defs =
  Deploy_def Deploy_bootstrapped_def Deploy_joins_def Deploy_before_def Deploy_extraOptions_def
  init_def init_retryable_def init_cmds_def bootstrap_def bootstrap_cmdline_def
  bootstrap_k3sOpts_def token_cmdline_def join_def join_cmdline_def join_k3sOpts_def
  IsMaster_def strings_TrimSuffix_def strings_HasSuffix_def multierror_Append_def Let_def

lemmas demo_defs =
  demo_env_def demo_cluster_def demo_master_def demo_worker1_def demo_worker2_def
  demo_node_def demo_spec_def connect_ok_def run_ok_def connect_refused_def connect_late_def
  run_join_fails_def run_fails_def

subsection \<open>The join command\<close>

lemma join_runs:
  assumes "join env node addr tok opts t = (r, t')"
    and "(name, cmds) \<in> set (runs (drop (length t) t'))"
  shows "name = Node_Name node \<and> cmds = [join_cmdline node addr tok opts]"
  using assms
  by (auto simp: join_def Let_def split: option.splits)

text \<open>
  C10. In every join invocation, the command that is run is the environment prefix (the
  assignment of \<open>INSTALL_K3S_EXEC\<close>, a space, the global extra options) followed at once by
  the \<open>K3S_URL\<close>/\<open>K3S_TOKEN\<close> invocation of the installer: when the global extra options are
  not empty, their last character stands directly before the \<open>K\<close> of \<open>K3S_URL\<close>.
\<close>

theorem join_command_adjacent:
  assumes "join env node apiServerAddress joinToken extraOptions t = (r, t')"
    and "(name, cmds) \<in> set (runs (drop (length t) t'))"
  shows "cmds = [''INSTALL_K3S_EXEC='' @ [dquote]
                  @ strings_Join (join_k3sOpts node extraOptions) '' '' @ [dquote]
                  @ '' '' @ ExtraOptions extraOptions
                  @ ''K3S_URL=https://'' @ apiServerAddress @ '':6443 K3S_TOKEN='' @ joinToken
                  @ '' k3s-install.sh'']
       \<and> (ExtraOptions extraOptions \<noteq> '''' \<longrightarrow>
            cmds = [(''INSTALL_K3S_EXEC='' @ [dquote]
                      @ strings_Join (join_k3sOpts node extraOptions) '' '' @ [dquote]
                      @ '' '' @ butlast (ExtraOptions extraOptions))
                    @ [last (ExtraOptions extraOptions), CHR ''K'']
                    @ (''3S_URL=https://'' @ apiServerAddress @ '':6443 K3S_TOKEN='' @ joinToken
                      @ '' k3s-install.sh'')])"
proof -
  have c: "cmds = [join_cmdline node apiServerAddress joinToken extraOptions]"
    using join_runs[OF assms] by simp
  have "ExtraOptions extraOptions \<noteq> '''' \<Longrightarrow>
      ExtraOptions extraOptions = butlast (ExtraOptions extraOptions) @ [last (ExtraOptions extraOptions)]"
    by simp
  then show ?thesis
    unfolding c join_cmdline_def Let_def
    by (metis append_Cons append_Nil append_assoc)
qed

theorem join_command_adjacent_witness:
  "join (demo_env [] connect_ok (run_ok '''') 0)
        (demo_worker1\<lparr>Node_Spec_Cluster := Some demo_spec\<rparr>) ''10.0.0.1'' ''K10secret''
        \<lparr>ServerInstallOpts = '''', AgentInstallOpts = '''',
         ExtraOptions = ''INSTALL_K3S_VERSION=v1.18.8''\<rparr> []
     = (None,
        [CallNewClient ''demo-worker-1'' ''id_rsa'' ''root'' ''10.0.0.2'',
         CallRun ''demo-worker-1''
           [''INSTALL_K3S_EXEC='' @ [dquote, dquote]
              @ '' INSTALL_K3S_VERSION=v1.18.8K3S_URL=https://10.0.0.1:6443 K3S_TOKEN=K10secret k3s-install.sh''],
         CallClose ''demo-worker-1''])
   \<and> (\<exists>pre post.
         [''INSTALL_K3S_EXEC='' @ [dquote, dquote]
              @ '' INSTALL_K3S_VERSION=v1.18.8K3S_URL=https://10.0.0.1:6443 K3S_TOKEN=K10secret k3s-install.sh'']
         = [pre @ ''8K3S_URL'' @ post])"
proof -
  let ?c = "[''INSTALL_K3S_EXEC='' @ [dquote, dquote]
              @ '' INSTALL_K3S_VERSION=v1.18.8K3S_URL=https://10.0.0.1:6443 K3S_TOKEN=K10secret k3s-install.sh'']"
  let ?t = "[CallNewClient ''demo-worker-1'' ''id_rsa'' ''root'' ''10.0.0.2'',
         CallRun ''demo-worker-1'' ?c, CallClose ''demo-worker-1'']"
  let ?o = "\<lparr>ServerInstallOpts = '''', AgentInstallOpts = '''',
         ExtraOptions = ''INSTALL_K3S_VERSION=v1.18.8''\<rparr>"
  have h1: "join (demo_env [] connect_ok (run_ok '''') 0)
        (demo_worker1\<lparr>Node_Spec_Cluster := Some demo_spec\<rparr>) ''10.0.0.1'' ''K10secret'' ?o []
     = (None, ?t)"
    by (simp add: model_defs demo_defs)
  have h2: "(''demo-worker-1'', ?c) \<in> set (runs (drop (length ([]::trace)) ?t))"
    by simp
  from join_command_adjacent[OF h1 h2]
  have "?c = [(''INSTALL_K3S_EXEC='' @ [dquote]
                      @ strings_Join (join_k3sOpts (demo_worker1\<lparr>Node_Spec_Cluster := Some demo_spec\<rparr>) ?o) '' '' @ [dquote]
                      @ '' '' @ butlast (ExtraOptions ?o))
                    @ [last (ExtraOptions ?o), CHR ''K'']
                    @ (''3S_URL=https://'' @ ''10.0.0.1'' @ '':6443 K3S_TOKEN='' @ ''K10secret''
                      @ '' k3s-install.sh'')]"
    by simp
  then have "\<exists>pre post. ?c = [pre @ ''8K3S_URL'' @ post]"
    by (intro exI[of _ "''INSTALL_K3S_EXEC='' @ [dquote, dquote] @ '' INSTALL_K3S_VERSION=v1.18.''"]
          exI[of _ "''=https://10.0.0.1:6443 K3S_TOKEN=K10secret k3s-install.sh''"]) simp
  with h1 show ?thesis by blast
qed

text \<open>
  C5. In every join invocation the install-exec options of the command depend on the
  node's role. For a master they are the flag \<open>--server\<close> followed by the server extra
  options (when these are not empty), and the agent extra options have no influence on
  the command. For any other node they are the agent extra options alone (nothing when
  these are empty), and the server extra options have no influence on the command.
\<close>

theorem join_options_by_role:
  assumes "join env node apiServerAddress joinToken extraOptions t = (r, t')"
    and "(name, cmds) \<in> set (runs (drop (length t) t'))"
  shows "(\<exists>k3sOpts.
            cmds = [''INSTALL_K3S_EXEC='' @ [dquote] @ strings_Join k3sOpts '' '' @ [dquote]
                     @ '' '' @ ExtraOptions extraOptions
                     @ ''K3S_URL=https://'' @ apiServerAddress @ '':6443 K3S_TOKEN=''
                     @ joinToken @ '' k3s-install.sh'']
          \<and> (if IsMaster node
              then k3sOpts = ''--server'' # (if ServerInstallOpts extraOptions = '''' then []
                                             else [ServerInstallOpts extraOptions])
              else k3sOpts = (if AgentInstallOpts extraOptions = '''' then []
                              else [AgentInstallOpts extraOptions])))
       \<and> (if IsMaster node
           then \<forall>a. cmds = [join_cmdline node apiServerAddress joinToken
                               (extraOptions\<lparr>AgentInstallOpts := a\<rparr>)]
           else \<forall>s. cmds = [join_cmdline node apiServerAddress joinToken
                               (extraOptions\<lparr>ServerInstallOpts := s\<rparr>)])"
proof -
  have c: "cmds = [join_cmdline node apiServerAddress joinToken extraOptions]"
    using join_runs[OF assms] by simp
  have "\<exists>k3sOpts.
            cmds = [''INSTALL_K3S_EXEC='' @ [dquote] @ strings_Join k3sOpts '' '' @ [dquote]
                     @ '' '' @ ExtraOptions extraOptions
                     @ ''K3S_URL=https://'' @ apiServerAddress @ '':6443 K3S_TOKEN=''
                     @ joinToken @ '' k3s-install.sh'']
          \<and> (if IsMaster node
              then k3sOpts = ''--server'' # (if ServerInstallOpts extraOptions = '''' then []
                                             else [ServerInstallOpts extraOptions])
              else k3sOpts = (if AgentInstallOpts extraOptions = '''' then []
                              else [AgentInstallOpts extraOptions]))"
    by (rule exI[of _ "join_k3sOpts node extraOptions"])
       (simp add: c join_cmdline_def join_k3sOpts_def)
  moreover have "if IsMaster node
           then \<forall>a. cmds = [join_cmdline node apiServerAddress joinToken
                               (extraOptions\<lparr>AgentInstallOpts := a\<rparr>)]
           else \<forall>s. cmds = [join_cmdline node apiServerAddress joinToken
                               (extraOptions\<lparr>ServerInstallOpts := s\<rparr>)]"
    by (simp add: c join_cmdline_def join_k3sOpts_def)
  ultimately show ?thesis by blast
qed

theorem join_options_by_role_witness:
  "join (demo_env [] connect_ok (run_ok '''') 0)
        (demo_node ''demo-master-2'' Master ''10.0.0.4''\<lparr>Node_Spec_Cluster := Some demo_spec\<rparr>)
        ''10.0.0.1'' ''K10secret''
        \<lparr>ServerInstallOpts = ''--no-deploy=traefik'', AgentInstallOpts = ''--node-label=a=b'',
         ExtraOptions = ''X=1 ''\<rparr> []
     = (None,
        [CallNewClient ''demo-master-2'' ''id_rsa'' ''root'' ''10.0.0.4'',
         CallRun ''demo-master-2''
           [''INSTALL_K3S_EXEC='' @ [dquote] @ ''--server --no-deploy=traefik'' @ [dquote]
              @ '' X=1 K3S_URL=https://10.0.0.1:6443 K3S_TOKEN=K10secret k3s-install.sh''],
         CallClose ''demo-master-2''])
   \<and> (\<exists>k3sOpts.
         [''INSTALL_K3S_EXEC='' @ [dquote] @ ''--server --no-deploy=traefik'' @ [dquote]
              @ '' X=1 K3S_URL=https://10.0.0.1:6443 K3S_TOKEN=K10secret k3s-install.sh'']
         = [''INSTALL_K3S_EXEC='' @ [dquote] @ strings_Join k3sOpts '' '' @ [dquote]
              @ '' X=1 K3S_URL=https://10.0.0.1:6443 K3S_TOKEN=K10secret k3s-install.sh'']
       \<and> k3sOpts = [''--server'', ''--no-deploy=traefik''])"
proof -
  let ?c = "[''INSTALL_K3S_EXEC='' @ [dquote] @ ''--server --no-deploy=traefik'' @ [dquote]
              @ '' X=1 K3S_URL=https://10.0.0.1:6443 K3S_TOKEN=K10secret k3s-install.sh'']"
  let ?t = "[CallNewClient ''demo-master-2'' ''id_rsa'' ''root'' ''10.0.0.4'',
         CallRun ''demo-master-2'' ?c, CallClose ''demo-master-2'']"
  let ?o = "\<lparr>ServerInstallOpts = ''--no-deploy=traefik'', AgentInstallOpts = ''--node-label=a=b'',
         ExtraOptions = ''X=1 ''\<rparr>"
  let ?n = "demo_node ''demo-master-2'' Master ''10.0.0.4''\<lparr>Node_Spec_Cluster := Some demo_spec\<rparr>"
  have h1: "join (demo_env [] connect_ok (run_ok '''') 0) ?n ''10.0.0.1'' ''K10secret'' ?o []
     = (None, ?t)"
    by (simp add: model_defs demo_defs)
  have h2: "(''demo-master-2'', ?c) \<in> set (runs (drop (length ([]::trace)) ?t))"
    by simp
  have m: "IsMaster ?n" by (simp add: IsMaster_def demo_node_def)
  from join_options_by_role[OF h1 h2] m
  have "\<exists>k3sOpts. ?c = [''INSTALL_K3S_EXEC='' @ [dquote] @ strings_Join k3sOpts '' '' @ [dquote]
                     @ '' '' @ ExtraOptions ?o
                     @ ''K3S_URL=https://'' @ ''10.0.0.1'' @ '':6443 K3S_TOKEN=''
                     @ ''K10secret'' @ '' k3s-install.sh'']
          \<and> k3sOpts = ''--server'' # (if ServerInstallOpts ?o = '''' then []
                                             else [ServerInstallOpts ?o])"
    by (simp only: if_True)
  then have "\<exists>k3sOpts. ?c = [''INSTALL_K3S_EXEC='' @ [dquote] @ strings_Join k3sOpts '' '' @ [dquote]
              @ '' X=1 K3S_URL=https://10.0.0.1:6443 K3S_TOKEN=K10secret k3s-install.sh'']
       \<and> k3sOpts = [''--server'', ''--no-deploy=traefik'']"
    by simp
  with h1 show ?thesis by blast
qed

subsection \<open>The bootstrap command and the join token\<close>

lemma Deploy_bootstrapped_Inr:
  assumes "Deploy_bootstrapped env cluster before_hook t = Inr ((fm, tok, opts), t')"
  shows "\<exists>added tokenBuf.
           opts = Deploy_extraOptions env cluster
         \<and> Node_Spec_Cluster fm = Some (Cluster_Spec cluster)
         \<and> t' = t @ added
                @ [CallNewClient (Node_Name fm) (Prikey (Cluster_Spec cluster)) ''root''
                     (Node_Status_IPAddresses fm),
                   CallRun (Node_Name fm)
                     [bootstrap_cmdline fm (length (Cluster_Nodes cluster) = 1) opts],
                   CallRun (Node_Name fm) [token_cmdline],
                   CallClose (Node_Name fm)]
         \<and> sshClient_Run env
              (t @ added
                 @ [CallNewClient (Node_Name fm) (Prikey (Cluster_Spec cluster)) ''root''
                      (Node_Status_IPAddresses fm),
                    CallRun (Node_Name fm)
                      [bootstrap_cmdline fm (length (Cluster_Nodes cluster) = 1) opts]])
              (Node_Name fm) [token_cmdline] = (None, tokenBuf)
         \<and> tok = strings_TrimSuffix tokenBuf [newline]"
proof -
  obtain t0 where b: "Deploy_before before_hook t = (None, t0)"
    using assms by (auto simp: Deploy_bootstrapped_def split: prod.splits option.splits)
  then obtain a0 where a0: "t0 = t @ a0"
    by (auto simp: Deploy_before_def split: option.splits)
  let ?t1 = "t0 @ [CallWaitNodesRunning (Cluster_Name cluster) 5]"
  have w: "nodeManager_WaitNodesRunning env t0 (Cluster_Name cluster) 5 = None"
    using assms b by (auto simp: Deploy_bootstrapped_def Let_def split: option.splits)
  obtain t2 where i: "init env cluster ?t1 = (None, t2)"
    using assms b w
    by (auto simp: Deploy_bootstrapped_def Let_def split: prod.splits option.splits)
  from init_extends[OF i] obtain a2 where a2: "t2 = ?t1 @ a2" by blast
  let ?name = "node_Name env (Cluster_Name cluster) Master 1"
  obtain fm0 where g: "nodeManager_GetNode env t2 ?name = Inr fm0"
    using assms b w i
    by (auto simp: Deploy_bootstrapped_def Let_def split: sum.splits)
  let ?fm = "fm0\<lparr>Node_Spec_Cluster := Some (Cluster_Spec cluster)\<rparr>"
  have bs: "bootstrap env ?fm (length (Cluster_Nodes cluster) = 1)
              (Deploy_extraOptions env cluster) (t2 @ [CallGetNode ?name]) = (Inr tok, t')"
    and fm: "fm = ?fm" and opts: "opts = Deploy_extraOptions env cluster"
    using assms b w i g
    by (auto simp: Deploy_bootstrapped_def Let_def split: sum.splits prod.splits)
  from bootstrap_trace[OF bs] fm opts a0 a2 show ?thesis
    by (intro exI[of _ "a0 @ [CallWaitNodesRunning (Cluster_Name cluster) 5] @ a2
                          @ [CallGetNode ?name]"]) auto
qed

lemma Deploy_joins_trace:
  assumes "Deploy_joins env cluster fm tok opts t1 = (r, t')"
  shows "\<exists>added. t' = t1 @ CallListNodes (Cluster_Name cluster) # added
           \<and> (\<forall>name cmds. (name, cmds) \<in> set (runs added) \<longrightarrow>
                (\<exists>nodes n. nodeManager_ListNodes env t1 (Cluster_Name cluster) = Inr nodes
                   \<and> n \<in> set nodes \<and> Node_Name n \<noteq> Node_Name fm \<and> name = Node_Name n
                   \<and> cmds = [join_cmdline (n\<lparr>Node_Spec_Cluster := Some (Cluster_Spec cluster)\<rparr>)
                               (Node_Status_IPAddresses fm) tok opts]))"
proof (cases "nodeManager_ListNodes env t1 (Cluster_Name cluster)")
  case (Inl e)
  with assms show ?thesis
    by (intro exI[of _ "[]"]) (auto simp: Deploy_joins_def)
next
  case (Inr nodes)
  show ?thesis
  proof (cases "nodes = []")
    case True
    with assms Inr show ?thesis
      by (intro exI[of _ "[]"]) (auto simp: Deploy_joins_def)
  next
    case False
    with assms Inr have "Deploy_join_nodes env cluster fm tok opts nodes
        (t1 @ [CallListNodes (Cluster_Name cluster)]) = (r, t')"
      by (simp add: Deploy_joins_def)
    from Deploy_join_nodes_runs[OF this] obtain added where
      "t' = (t1 @ [CallListNodes (Cluster_Name cluster)]) @ added"
      "\<forall>name cmds. (name, cmds) \<in> set (runs added) \<longrightarrow>
         (\<exists>n \<in> set nodes. Node_Name n \<noteq> Node_Name fm \<and> name = Node_Name n
            \<and> cmds = [join_cmdline (n\<lparr>Node_Spec_Cluster := Some (Cluster_Spec cluster)\<rparr>)
                        (Node_Status_IPAddresses fm) tok opts])" by blast
    with Inr show ?thesis
      by (intro exI[of _ added]) auto
  qed
qed

lemma Deploy_joins_extends:
  "Deploy_joins env cluster fm tok opts t1 = (r, t')
     \<Longrightarrow> \<exists>added. t' = t1 @ CallListNodes (Cluster_Name cluster) # added"
  using Deploy_joins_trace by blast

lemma bootstrap_cases:
  assumes "bootstrap env node single opts t = (r, t')"
    and "Node_Spec_Cluster node = Some spec"
  shows "(utilssh_NewClient env t (Node_Name node) (Prikey spec) ''root''
            (Node_Status_IPAddresses node) \<noteq> None
          \<and> (\<exists>e. r = Inl e)
          \<and> t' = t @ [CallNewClient (Node_Name node) (Prikey spec) ''root''
                        (Node_Status_IPAddresses node)])
       \<or> (utilssh_NewClient env t (Node_Name node) (Prikey spec) ''root''
            (Node_Status_IPAddresses node) = None
          \<and> (\<exists>more. t' = t @ [CallNewClient (Node_Name node) (Prikey spec) ''root''
                                 (Node_Status_IPAddresses node),
                               CallRun (Node_Name node) [bootstrap_cmdline node single opts]]
                           @ more))"
  using assms
  by (auto simp: bootstrap_def Let_def split: option.splits prod.splits)

text \<open>
  C4. When \<open>Deploy\<close> gets to the bootstrap of the primary of a cluster (a cluster has at
  least one node), it requests a session to the primary, and when the session is granted
  the first command that it runs there is the install command, whose \<open>INSTALL_K3S_EXEC\<close>
  holds these options joined by spaces: first the bind-address flag with the primary's
  address, then the flag \<open>--cluster-init\<close> exactly when the cluster has more than one
  node, then the server extra options exactly when they are not empty.
\<close>

theorem bootstrap_install_options:
  assumes nodes: "Cluster_Nodes cluster \<noteq> []"
    and before: "Deploy_before before_hook t = (None, t0)"
    and wait: "nodeManager_WaitNodesRunning env t0 (Cluster_Name cluster) 5 = None"
    and init: "init env cluster (t0 @ [CallWaitNodesRunning (Cluster_Name cluster) 5]) = (None, t2)"
    and get: "nodeManager_GetNode env t2 (node_Name env (Cluster_Name cluster) Master 1)
                = Inr firstMaster"
  shows "\<exists>k3sOpts rest.
           k3sOpts = [''--bind-address='' @ Node_Status_IPAddresses firstMaster]
                       @ (if 1 < length (Cluster_Nodes cluster) then [''--cluster-init''] else [])
                       @ (if ServerInstallOpts (Deploy_extraOptions env cluster) \<noteq> ''''
                          then [ServerInstallOpts (Deploy_extraOptions env cluster)] else [])
         \<and> snd (Deploy env cluster before_hook t)
             = t2 @ [CallGetNode (node_Name env (Cluster_Name cluster) Master 1),
                     CallNewClient (Node_Name firstMaster) (Prikey (Cluster_Spec cluster))
                       ''root'' (Node_Status_IPAddresses firstMaster)] @ rest
         \<and> (if utilssh_NewClient env
                   (t2 @ [CallGetNode (node_Name env (Cluster_Name cluster) Master 1)])
                   (Node_Name firstMaster) (Prikey (Cluster_Spec cluster)) ''root''
                   (Node_Status_IPAddresses firstMaster) = None
             then \<exists>more. rest
                    = CallRun (Node_Name firstMaster)
                        [''INSTALL_K3S_EXEC='' @ [dquote] @ strings_Join k3sOpts '' ''
                           @ [dquote] @ '' '' @ ExtraOptions (Deploy_extraOptions env cluster)
                           @ '' k3s-install.sh ''] # more
             else rest = [])"
proof -
  let ?nm = "node_Name env (Cluster_Name cluster) Master 1"
  let ?fm = "firstMaster\<lparr>Node_Spec_Cluster := Some (Cluster_Spec cluster)\<rparr>"
  let ?opts = "Deploy_extraOptions env cluster"
  let ?single = "length (Cluster_Nodes cluster) = 1"
  let ?c = "CallNewClient (Node_Name firstMaster) (Prikey (Cluster_Spec cluster)) ''root''
              (Node_Status_IPAddresses firstMaster)"
  let ?k = "[''--bind-address='' @ Node_Status_IPAddresses firstMaster]
              @ (if 1 < length (Cluster_Nodes cluster) then [''--cluster-init''] else [])
              @ (if ServerInstallOpts ?opts \<noteq> '''' then [ServerInstallOpts ?opts] else [])"
  from nodes obtain n ns where "Cluster_Nodes cluster = n # ns"
    by (cases "Cluster_Nodes cluster") auto
  then have k: "bootstrap_k3sOpts ?fm ?single ?opts = ?k"
    by (cases ns) (auto simp: bootstrap_k3sOpts_def Let_def)
  have cmd: "bootstrap_cmdline ?fm ?single ?opts
               = ''INSTALL_K3S_EXEC='' @ [dquote] @ strings_Join ?k '' '' @ [dquote] @ '' ''
                   @ ExtraOptions ?opts @ '' k3s-install.sh ''"
    unfolding bootstrap_cmdline_def k ..
  obtain r4 t4 where b: "bootstrap env ?fm ?single ?opts (t2 @ [CallGetNode ?nm]) = (r4, t4)"
    by (metis surj_pair)
  have sc: "Node_Spec_Cluster ?fm = Some (Cluster_Spec cluster)" by simp
  have d: "Deploy env cluster before_hook t
             = (case r4 of Inl err \<Rightarrow> (Some err, t4)
                | Inr tok \<Rightarrow> Deploy_joins env cluster ?fm tok ?opts t4)"
    using before wait init get b
    by (simp add: Deploy_def Deploy_bootstrapped_def split: sum.splits)
  from bootstrap_cases[OF b sc]
  consider (refused) e where "utilssh_NewClient env (t2 @ [CallGetNode ?nm]) (Node_Name firstMaster)
        (Prikey (Cluster_Spec cluster)) ''root'' (Node_Status_IPAddresses firstMaster) \<noteq> None"
      "r4 = Inl e" "t4 = (t2 @ [CallGetNode ?nm]) @ [?c]"
    | (granted) more where "utilssh_NewClient env (t2 @ [CallGetNode ?nm]) (Node_Name firstMaster)
        (Prikey (Cluster_Spec cluster)) ''root'' (Node_Status_IPAddresses firstMaster) = None"
      "t4 = (t2 @ [CallGetNode ?nm]) @ [?c, CallRun (Node_Name firstMaster)
                [bootstrap_cmdline ?fm ?single ?opts]] @ more"
    by auto
  then show ?thesis
  proof cases
    case refused
    then show ?thesis
      by (intro exI[of _ ?k] exI[of _ "[]"]) (simp add: d)
  next
    case granted
    have "\<exists>more'. snd (Deploy env cluster before_hook t) = t4 @ more'"
    proof (cases r4)
      case (Inl err)
      then show ?thesis by (simp add: d)
    next
      case (Inr tok)
      obtain rj tj where j: "Deploy_joins env cluster ?fm tok ?opts t4 = (rj, tj)"
        by (metis surj_pair)
      from Deploy_joins_extends[OF j] Inr j show ?thesis by (auto simp: d)
    qed
    then obtain more' where m: "snd (Deploy env cluster before_hook t) = t4 @ more'" by blast
    let ?install = "''INSTALL_K3S_EXEC='' @ [dquote] @ strings_Join ?k '' '' @ [dquote] @ '' ''
                      @ ExtraOptions ?opts @ '' k3s-install.sh ''"
    have s: "snd (Deploy env cluster before_hook t)
               = t2 @ [CallGetNode ?nm, ?c]
                   @ (CallRun (Node_Name firstMaster) [?install] # more @ more')"
      unfolding m granted(2) cmd by simp
    show ?thesis
      apply (rule exI[of _ ?k])
      apply (rule exI[of _ "CallRun (Node_Name firstMaster) [?install] # more @ more'"])
      apply (intro conjI)
        apply (rule refl)
       apply (rule s)
      using granted(1) apply simp
      done
  qed
qed

theorem bootstrap_install_options_witness:
  "Cluster_Nodes (demo_cluster [demo_master, demo_worker1]) \<noteq> []
   \<and> nodeManager_GetNode (demo_env [demo_master, demo_worker1] connect_ok (run_ok ''K10'') 0)
       (snd (init (demo_env [demo_master, demo_worker1] connect_ok (run_ok ''K10'') 0)
               (demo_cluster [demo_master, demo_worker1]) [CallWaitNodesRunning ''demo'' 5]))
       ''demo-master-1'' = Inr demo_master
   \<and> (\<exists>more.
         snd (Deploy (demo_env [demo_master, demo_worker1] connect_ok (run_ok ''K10'') 0)
                (demo_cluster [demo_master, demo_worker1]) None [])
         = snd (init (demo_env [demo_master, demo_worker1] connect_ok (run_ok ''K10'') 0)
                  (demo_cluster [demo_master, demo_worker1]) [CallWaitNodesRunning ''demo'' 5])
           @ [CallGetNode ''demo-master-1'',
              CallNewClient ''demo-master-1'' ''id_rsa'' ''root'' ''10.0.0.1'',
              CallRun ''demo-master-1''
                [''INSTALL_K3S_EXEC='' @ [dquote]
                   @ ''--bind-address=10.0.0.1 --cluster-init'' @ [dquote]
                   @ '' INSTALL_K3S_VERSION=v1.18.8 k3s-install.sh '']]
           @ more)"
proof -
  let ?E = "demo_env [demo_master, demo_worker1] connect_ok (run_ok ''K10'') 0"
  let ?C = "demo_cluster [demo_master, demo_worker1]"
  let ?t2 = "snd (init ?E ?C [CallWaitNodesRunning ''demo'' 5])"
  have n: "Cluster_Nodes ?C \<noteq> []" by (simp add: demo_cluster_def)
  have b: "Deploy_before None [] = (None, [])" by (simp add: Deploy_before_def)
  have w: "nodeManager_WaitNodesRunning ?E [] (Cluster_Name ?C) 5 = None"
    by (simp add: demo_env_def)
  have i: "init ?E ?C ([] @ [CallWaitNodesRunning (Cluster_Name ?C) 5]) = (None, ?t2)"
    by (simp add: model_defs demo_defs)
  have g: "nodeManager_GetNode ?E ?t2 (node_Name ?E (Cluster_Name ?C) Master 1) = Inr demo_master"
    by (simp add: demo_env_def demo_cluster_def)
  have g': "nodeManager_GetNode ?E ?t2 ''demo-master-1'' = Inr demo_master"
    by (simp add: demo_env_def)
  have c: "utilssh_NewClient ?E
             (?t2 @ [CallGetNode (node_Name ?E (Cluster_Name ?C) Master 1)])
             (Node_Name demo_master) (Prikey (Cluster_Spec ?C)) ''root''
             (Node_Status_IPAddresses demo_master) = None"
    by (simp add: demo_env_def connect_ok_def)
  from bootstrap_install_options[OF n b w i g] c
  obtain more where
    "snd (Deploy ?E ?C None [])
       = ?t2 @ [CallGetNode (node_Name ?E (Cluster_Name ?C) Master 1),
                CallNewClient (Node_Name demo_master) (Prikey (Cluster_Spec ?C))
                  ''root'' (Node_Status_IPAddresses demo_master)]
            @ CallRun (Node_Name demo_master)
                [''INSTALL_K3S_EXEC='' @ [dquote]
                   @ strings_Join
                       ([''--bind-address='' @ Node_Status_IPAddresses demo_master]
                        @ (if 1 < length (Cluster_Nodes ?C) then [''--cluster-init''] else [])
                        @ (if ServerInstallOpts (Deploy_extraOptions ?E ?C) \<noteq> ''''
                           then [ServerInstallOpts (Deploy_extraOptions ?E ?C)] else [])) '' ''
                   @ [dquote] @ '' '' @ ExtraOptions (Deploy_extraOptions ?E ?C)
                   @ '' k3s-install.sh ''] # more"
    by auto
  then have "snd (Deploy ?E ?C None [])
         = ?t2 @ [CallGetNode ''demo-master-1'',
              CallNewClient ''demo-master-1'' ''id_rsa'' ''root'' ''10.0.0.1'',
              CallRun ''demo-master-1''
                [''INSTALL_K3S_EXEC='' @ [dquote]
                   @ ''--bind-address=10.0.0.1 --cluster-init'' @ [dquote]
                   @ '' INSTALL_K3S_VERSION=v1.18.8 k3s-install.sh '']]
           @ more"
    by (simp add: demo_env_def demo_cluster_def demo_master_def demo_node_def demo_spec_def
          Deploy_extraOptions_def)
  with n g' show ?thesis by blast
qed

text \<open>
  C3. When \<open>Deploy\<close> has bootstrapped the primary, the join token is the captured output
  of reading the token file on the primary, without its last character when that is a
  line feed and as it is otherwise (so one line terminator is removed, not more). Every
  command that \<open>Deploy\<close> runs afterwards is the join command of a listed node other than
  the primary, and carries exactly this token after \<open>K3S_TOKEN=\<close>.
\<close>

theorem join_token_from_bootstrap:
  assumes "Deploy_bootstrapped env cluster before_hook t
             = Inr ((firstMaster, joinToken, extraOptions), t1)"
  shows "(\<exists>t0 tokenBuf.
            t1 = t0 @ [CallRun (Node_Name firstMaster) [token_cmdline],
                       CallClose (Node_Name firstMaster)]
          \<and> sshClient_Run env t0 (Node_Name firstMaster) [token_cmdline] = (None, tokenBuf)
          \<and> joinToken = (if tokenBuf \<noteq> [] \<and> last tokenBuf = newline
                          then butlast tokenBuf else tokenBuf))
       \<and> (\<forall>name cmds.
            (name, cmds) \<in> set (runs (drop (length t1) (snd (Deploy env cluster before_hook t))))
            \<longrightarrow> (\<exists>nodes n.
                   nodeManager_ListNodes env t1 (Cluster_Name cluster) = Inr nodes
                 \<and> n \<in> set nodes \<and> Node_Name n \<noteq> Node_Name firstMaster
                 \<and> name = Node_Name n
                 \<and> cmds = [''INSTALL_K3S_EXEC='' @ [dquote]
                             @ strings_Join (join_k3sOpts n extraOptions) '' '' @ [dquote]
                             @ '' '' @ ExtraOptions extraOptions
                             @ ''K3S_URL=https://'' @ Node_Status_IPAddresses firstMaster
                             @ '':6443 K3S_TOKEN='' @ joinToken @ '' k3s-install.sh'']))"
proof -
  from Deploy_bootstrapped_Inr[OF assms] obtain added tokenBuf where
    t1: "t1 = t @ added
                @ [CallNewClient (Node_Name firstMaster) (Prikey (Cluster_Spec cluster)) ''root''
                     (Node_Status_IPAddresses firstMaster),
                   CallRun (Node_Name firstMaster)
                     [bootstrap_cmdline firstMaster (length (Cluster_Nodes cluster) = 1)
                        extraOptions],
                   CallRun (Node_Name firstMaster) [token_cmdline],
                   CallClose (Node_Name firstMaster)]"
    and run: "sshClient_Run env
              (t @ added
                 @ [CallNewClient (Node_Name firstMaster) (Prikey (Cluster_Spec cluster)) ''root''
                      (Node_Status_IPAddresses firstMaster),
                    CallRun (Node_Name firstMaster)
                      [bootstrap_cmdline firstMaster (length (Cluster_Nodes cluster) = 1)
                         extraOptions]])
              (Node_Name firstMaster) [token_cmdline] = (None, tokenBuf)"
    and tok: "joinToken = strings_TrimSuffix tokenBuf [newline]"
    by blast
  have a: "\<exists>t0 tokenBuf.
            t1 = t0 @ [CallRun (Node_Name firstMaster) [token_cmdline],
                       CallClose (Node_Name firstMaster)]
          \<and> sshClient_Run env t0 (Node_Name firstMaster) [token_cmdline] = (None, tokenBuf)
          \<and> joinToken = (if tokenBuf \<noteq> [] \<and> last tokenBuf = newline
                          then butlast tokenBuf else tokenBuf)"
    apply (rule exI[of _ "t @ added
                 @ [CallNewClient (Node_Name firstMaster) (Prikey (Cluster_Spec cluster)) ''root''
                      (Node_Status_IPAddresses firstMaster),
                    CallRun (Node_Name firstMaster)
                      [bootstrap_cmdline firstMaster (length (Cluster_Nodes cluster) = 1)
                         extraOptions]]"])
    apply (rule exI[of _ tokenBuf])
    using t1 run tok by (simp add: strings_TrimSuffix_newline)
  obtain r t' where d: "Deploy env cluster before_hook t = (r, t')" by (metis surj_pair)
  with assms have "Deploy_joins env cluster firstMaster joinToken extraOptions t1 = (r, t')"
    by (simp add: Deploy_def)
  from Deploy_joins_trace[OF this] obtain added' where
    t': "t' = t1 @ CallListNodes (Cluster_Name cluster) # added'"
    and rs: "\<forall>name cmds. (name, cmds) \<in> set (runs added') \<longrightarrow>
                (\<exists>nodes n. nodeManager_ListNodes env t1 (Cluster_Name cluster) = Inr nodes
                   \<and> n \<in> set nodes \<and> Node_Name n \<noteq> Node_Name firstMaster \<and> name = Node_Name n
                   \<and> cmds = [join_cmdline (n\<lparr>Node_Spec_Cluster := Some (Cluster_Spec cluster)\<rparr>)
                               (Node_Status_IPAddresses firstMaster) joinToken extraOptions])"
    by blast
  have jc: "\<And>n. join_cmdline (n\<lparr>Node_Spec_Cluster := Some (Cluster_Spec cluster)\<rparr>)
                 (Node_Status_IPAddresses firstMaster) joinToken extraOptions
            = ''INSTALL_K3S_EXEC='' @ [dquote]
                @ strings_Join (join_k3sOpts n extraOptions) '' '' @ [dquote]
                @ '' '' @ ExtraOptions extraOptions
                @ ''K3S_URL=https://'' @ Node_Status_IPAddresses firstMaster
                @ '':6443 K3S_TOKEN='' @ joinToken @ '' k3s-install.sh''"
    by (simp add: join_cmdline_def join_k3sOpts_def IsMaster_def)
  have b: "\<forall>name cmds.
            (name, cmds) \<in> set (runs (drop (length t1) (snd (Deploy env cluster before_hook t))))
            \<longrightarrow> (\<exists>nodes n.
                   nodeManager_ListNodes env t1 (Cluster_Name cluster) = Inr nodes
                 \<and> n \<in> set nodes \<and> Node_Name n \<noteq> Node_Name firstMaster
                 \<and> name = Node_Name n
                 \<and> cmds = [''INSTALL_K3S_EXEC='' @ [dquote]
                             @ strings_Join (join_k3sOpts n extraOptions) '' '' @ [dquote]
                             @ '' '' @ ExtraOptions extraOptions
                             @ ''K3S_URL=https://'' @ Node_Status_IPAddresses firstMaster
                             @ '':6443 K3S_TOKEN='' @ joinToken @ '' k3s-install.sh''])"
    using rs unfolding d t' jc by simp
  from a b show ?thesis by (rule conjI)
qed

theorem join_token_from_bootstrap_witness:
  "\<exists>fm opts t1.
     Deploy_bootstrapped
       (demo_env [demo_master, demo_worker1, demo_worker2] connect_ok
          (run_ok (''K10secret'' @ [newline, newline])) 0)
       (demo_cluster [demo_master, demo_worker1, demo_worker2]) None []
       = Inr ((fm, ''K10secret'' @ [newline], opts), t1)
   \<and> runs (drop (length t1) (snd (Deploy
       (demo_env [demo_master, demo_worker1, demo_worker2] connect_ok
          (run_ok (''K10secret'' @ [newline, newline])) 0)
       (demo_cluster [demo_master, demo_worker1, demo_worker2]) None [])))
     = [(''demo-worker-1'',
         [''INSTALL_K3S_EXEC='' @ [dquote, dquote]
            @ '' INSTALL_K3S_VERSION=v1.18.8K3S_URL=https://10.0.0.1:6443 K3S_TOKEN=K10secret''
            @ [newline] @ '' k3s-install.sh'']),
        (''demo-worker-2'',
         [''INSTALL_K3S_EXEC='' @ [dquote, dquote]
            @ '' INSTALL_K3S_VERSION=v1.18.8K3S_URL=https://10.0.0.1:6443 K3S_TOKEN=K10secret''
            @ [newline] @ '' k3s-install.sh''])]"
proof -
  let ?E = "demo_env [demo_master, demo_worker1, demo_worker2] connect_ok
          (run_ok (''K10secret'' @ [newline, newline])) 0"
  let ?C = "demo_cluster [demo_master, demo_worker1, demo_worker2]"
  have "\<exists>fm opts t1. Deploy_bootstrapped ?E ?C None []
          = Inr ((fm, ''K10secret'' @ [newline], opts), t1)"
    by (simp add: model_defs demo_defs)
  then obtain fm opts t1 where
    h: "Deploy_bootstrapped ?E ?C None [] = Inr ((fm, ''K10secret'' @ [newline], opts), t1)"
    by blast
  note th = join_token_from_bootstrap[OF h]
  have "runs (drop (length t1) (snd (Deploy ?E ?C None [])))
     = [(''demo-worker-1'',
         [''INSTALL_K3S_EXEC='' @ [dquote, dquote]
            @ '' INSTALL_K3S_VERSION=v1.18.8K3S_URL=https://10.0.0.1:6443 K3S_TOKEN=K10secret''
            @ [newline] @ '' k3s-install.sh'']),
        (''demo-worker-2'',
         [''INSTALL_K3S_EXEC='' @ [dquote, dquote]
            @ '' INSTALL_K3S_VERSION=v1.18.8K3S_URL=https://10.0.0.1:6443 K3S_TOKEN=K10secret''
            @ [newline] @ '' k3s-install.sh''])]"
    using h th by (auto simp: model_defs demo_defs)
  with h show ?thesis by blast
qed

subsection \<open>The listing after the bootstrap\<close>

lemma join_error_shape:
  assumes "join env node addr tok opts t = (Some e, t')"
    and "Node_Spec_Cluster node = Some spec"
  shows "(\<exists>m. e = External m) \<or> (\<exists>m. e = WithStack (External m))"
  using join_trace[OF assms] by auto

lemma Deploy_join_nodes_error_shape:
  assumes "Deploy_join_nodes env cluster fm tok opts nodes t = (Some e, t')"
  shows "(\<exists>m. e = External m) \<or> (\<exists>m. e = WithStack (External m))"
proof -
  from Deploy_join_nodes_Some[OF assms] obtain n t0 where
    "join env (n\<lparr>Node_Spec_Cluster := Some (Cluster_Spec cluster)\<rparr>)
       (Node_Status_IPAddresses fm) tok opts t0 = (Some e, t')" by blast
  from join_error_shape[OF this] show ?thesis by simp
qed

text \<open>
  C9. When \<open>Deploy\<close> has bootstrapped the primary, it lists the nodes of the cluster
  next; it returns the error \<open>no nodes available\<close> if and only if that listing succeeds
  and is empty, and then the listing is the last call: no join is attempted.
\<close>

theorem no_nodes_available_after_bootstrap:
  assumes "Deploy_bootstrapped env cluster before_hook t
             = Inr ((firstMaster, joinToken, extraOptions), t1)"
  shows "(\<exists>added. snd (Deploy env cluster before_hook t)
                    = t1 @ CallListNodes (Cluster_Name cluster) # added)
       \<and> (fst (Deploy env cluster before_hook t) = Some (New ''no nodes available'')
            \<longleftrightarrow> nodeManager_ListNodes env t1 (Cluster_Name cluster) = Inr [])
       \<and> (nodeManager_ListNodes env t1 (Cluster_Name cluster) = Inr []
            \<longrightarrow> snd (Deploy env cluster before_hook t)
                  = t1 @ [CallListNodes (Cluster_Name cluster)])"
proof -
  have d: "Deploy env cluster before_hook t
             = Deploy_joins env cluster firstMaster joinToken extraOptions t1"
    using assms by (simp add: Deploy_def)
  obtain r t' where j: "Deploy_joins env cluster firstMaster joinToken extraOptions t1 = (r, t')"
    by (metis surj_pair)
  from Deploy_joins_extends[OF j] have a:
    "\<exists>added. snd (Deploy env cluster before_hook t)
                    = t1 @ CallListNodes (Cluster_Name cluster) # added"
    by (simp add: d j)
  have b: "fst (Deploy env cluster before_hook t) = Some (New ''no nodes available'')
            \<longleftrightarrow> nodeManager_ListNodes env t1 (Cluster_Name cluster) = Inr []"
  proof (cases "nodeManager_ListNodes env t1 (Cluster_Name cluster)")
    case (Inl e)
    then show ?thesis by (simp add: d Deploy_joins_def)
  next
    case (Inr nodes)
    show ?thesis
    proof (cases "nodes = []")
      case True
      with Inr show ?thesis by (simp add: d Deploy_joins_def)
    next
      case False
      with Inr j have l: "Deploy_join_nodes env cluster firstMaster joinToken extraOptions nodes
          (t1 @ [CallListNodes (Cluster_Name cluster)]) = (r, t')"
        by (simp add: Deploy_joins_def)
      have "r \<noteq> Some (New ''no nodes available'')"
      proof
        assume "r = Some (New ''no nodes available'')"
        with l Deploy_join_nodes_error_shape show False by blast
      qed
      with Inr False show ?thesis by (simp add: d j)
    qed
  qed
  have c: "nodeManager_ListNodes env t1 (Cluster_Name cluster) = Inr []
            \<longrightarrow> snd (Deploy env cluster before_hook t)
                  = t1 @ [CallListNodes (Cluster_Name cluster)]"
    by (simp add: d Deploy_joins_def)
  from a b c show ?thesis by blast
qed

theorem no_nodes_available_after_bootstrap_witness:
  "\<exists>fm tok opts t1.
     Deploy_bootstrapped (demo_env [] connect_ok (run_ok ''K10secret'') 0)
       (demo_cluster [demo_master]) None [] = Inr ((fm, tok, opts), t1)
   \<and> nodeManager_ListNodes (demo_env [] connect_ok (run_ok ''K10secret'') 0) t1 ''demo'' = Inr []
   \<and> Deploy (demo_env [] connect_ok (run_ok ''K10secret'') 0) (demo_cluster [demo_master]) None []
       = (Some (New ''no nodes available''), t1 @ [CallListNodes ''demo''])"
proof -
  let ?E = "demo_env [] connect_ok (run_ok ''K10secret'') 0"
  let ?C = "demo_cluster [demo_master]"
  have "\<exists>fm tok opts t1. Deploy_bootstrapped ?E ?C None [] = Inr ((fm, tok, opts), t1)"
    by (simp add: model_defs demo_defs)
  then obtain fm tok opts t1 where
    h: "Deploy_bootstrapped ?E ?C None [] = Inr ((fm, tok, opts), t1)" by blast
  have l: "nodeManager_ListNodes ?E t1 ''demo'' = Inr []" by (simp add: demo_env_def)
  have n: "Cluster_Name ?C = ''demo''" by (simp add: demo_cluster_def)
  from no_nodes_available_after_bootstrap[OF h] l n
  have "fst (Deploy ?E ?C None []) = Some (New ''no nodes available'')"
    "snd (Deploy ?E ?C None []) = t1 @ [CallListNodes ''demo'']"
    by simp_all
  then have "Deploy ?E ?C None [] = (Some (New ''no nodes available''), t1 @ [CallListNodes ''demo''])"
    by (simp add: prod_eq_iff)
  with h l show ?thesis by blast
qed

subsection \<open>The wait for the nodes\<close>

lemma Deploy_bootstrapped_extends:
  assumes b: "Deploy_before before_hook t = (None, t0)"
    and w: "nodeManager_WaitNodesRunning env t0 (Cluster_Name cluster) 5 = None"
  shows "(\<exists>e added. Deploy_bootstrapped env cluster before_hook t
                       = Inl (e, t0 @ CallWaitNodesRunning (Cluster_Name cluster) 5 # added))
       \<or> (\<exists>x added. Deploy_bootstrapped env cluster before_hook t
                       = Inr (x, t0 @ CallWaitNodesRunning (Cluster_Name cluster) 5 # added))"
proof -
  let ?t1 = "t0 @ [CallWaitNodesRunning (Cluster_Name cluster) 5]"
  obtain r2 t2 where i: "init env cluster ?t1 = (r2, t2)" by (metis surj_pair)
  from init_extends[OF i] obtain a2 where a2: "t2 = ?t1 @ a2" by blast
  show ?thesis
  proof (cases r2)
    case (Some err)
    with b w i a2 show ?thesis
      by (simp add: Deploy_bootstrapped_def)
  next
    case None
    let ?name = "node_Name env (Cluster_Name cluster) Master 1"
    show ?thesis
    proof (cases "nodeManager_GetNode env t2 ?name")
      case (Inl e)
      with b w i a2 None show ?thesis
        by (simp add: Deploy_bootstrapped_def)
    next
      case (Inr fm)
      obtain rb t4 where bs: "bootstrap env (fm\<lparr>Node_Spec_Cluster := Some (Cluster_Spec cluster)\<rparr>)
          (length (Cluster_Nodes cluster) = 1) (Deploy_extraOptions env cluster)
          (t2 @ [CallGetNode ?name]) = (rb, t4)" by (metis surj_pair)
      from bootstrap_extends[OF bs] obtain a4 where a4: "t4 = (t2 @ [CallGetNode ?name]) @ a4"
        by blast
      from b w i a2 None Inr bs a4 show ?thesis
        by (cases rb) (simp_all add: Deploy_bootstrapped_def)
    qed
  qed
qed

text \<open>
  C7. After the pre-hook (if there is one, and it passed) the first call of \<open>Deploy\<close> is
  the wait for the running nodes of the cluster, by the cluster's name and with the
  budget 5. When the wait fails, \<open>Deploy\<close> returns that failure with the message
  \<open>some nodes are not running\<close>, and the wait is its last call: no session is opened and no
  command is run, so nothing is initialized, bootstrapped or joined.
\<close>

theorem wait_nodes_running_first:
  assumes "Deploy_before before_hook t = (None, t0)"
  shows "(\<exists>added. snd (Deploy env cluster before_hook t)
                    = t0 @ CallWaitNodesRunning (Cluster_Name cluster) 5 # added)
       \<and> (\<forall>e. nodeManager_WaitNodesRunning env t0 (Cluster_Name cluster) 5 = Some e
              \<longrightarrow> Deploy env cluster before_hook t
                    = (Some (WithMessage (External e) ''some nodes are not running''),
                       t0 @ [CallWaitNodesRunning (Cluster_Name cluster) 5]))"
proof -
  have fail: "\<forall>e. nodeManager_WaitNodesRunning env t0 (Cluster_Name cluster) 5 = Some e
              \<longrightarrow> Deploy env cluster before_hook t
                    = (Some (WithMessage (External e) ''some nodes are not running''),
                       t0 @ [CallWaitNodesRunning (Cluster_Name cluster) 5])"
    using assms by (simp add: Deploy_def Deploy_bootstrapped_def)
  have "\<exists>added. snd (Deploy env cluster before_hook t)
                    = t0 @ CallWaitNodesRunning (Cluster_Name cluster) 5 # added"
  proof (cases "nodeManager_WaitNodesRunning env t0 (Cluster_Name cluster) 5")
    case (Some e)
    with fail show ?thesis by simp
  next
    case None
    from Deploy_bootstrapped_extends[OF assms None]
    consider (l) e added where "Deploy_bootstrapped env cluster before_hook t
                       = Inl (e, t0 @ CallWaitNodesRunning (Cluster_Name cluster) 5 # added)"
      | (r) fm tok opts added where "Deploy_bootstrapped env cluster before_hook t
                       = Inr ((fm, tok, opts), t0 @ CallWaitNodesRunning (Cluster_Name cluster) 5 # added)"
      by (metis prod_cases3)
    then show ?thesis
    proof cases
      case l
      then show ?thesis by (simp add: Deploy_def)
    next
      case r
      obtain rr t' where j: "Deploy_joins env cluster fm tok opts
          (t0 @ CallWaitNodesRunning (Cluster_Name cluster) 5 # added) = (rr, t')"
        by (metis surj_pair)
      from Deploy_joins_extends[OF j] r j show ?thesis
        by (auto simp: Deploy_def)
    qed
  qed
  with fail show ?thesis by blast
qed

theorem wait_nodes_running_first_witness:
  "Deploy_before (Some (\<lambda>t. None)) [] = (None, [CallBefore])
   \<and> Deploy demo_env_not_ready (demo_cluster [demo_master, demo_worker1]) (Some (\<lambda>t. None)) []
       = (Some (WithMessage (External ''timed out'') ''some nodes are not running''),
          [CallBefore, CallWaitNodesRunning ''demo'' 5])"
proof -
  have h: "Deploy_before (Some (\<lambda>t. None)) [] = (None, [CallBefore])"
    by (simp add: Deploy_before_def)
  have w: "nodeManager_WaitNodesRunning demo_env_not_ready [CallBefore]
             (Cluster_Name (demo_cluster [demo_master, demo_worker1])) 5 = Some ''timed out''"
    by (simp add: demo_env_not_ready_def demo_env_def)
  from wait_nodes_running_first[OF h, of demo_env_not_ready "demo_cluster [demo_master, demo_worker1]"] w
  have "Deploy demo_env_not_ready (demo_cluster [demo_master, demo_worker1]) (Some (\<lambda>t. None)) []
       = (Some (WithMessage (External ''timed out'') ''some nodes are not running''),
          [CallBefore] @ [CallWaitNodesRunning (Cluster_Name (demo_cluster [demo_master, demo_worker1])) 5])"
    by blast
  with h show ?thesis by (simp add: demo_cluster_def)
qed

subsection \<open>The order of the joins\<close>

lemma Deploy_join_nodes_chain:
  assumes "Deploy_join_nodes env cluster fm tok opts nodes t = (r, t')"
  shows "\<exists>m ts.
           m \<le> length (filter (\<lambda>n. Node_Name n \<noteq> Node_Name fm) nodes)
         \<and> length ts = Suc m \<and> ts ! 0 = t
         \<and> (\<forall>i < m.
               join env ((filter (\<lambda>n. Node_Name n \<noteq> Node_Name fm) nodes ! i)
                           \<lparr>Node_Spec_Cluster := Some (Cluster_Spec cluster)\<rparr>)
                 (Node_Status_IPAddresses fm) tok opts (ts ! i) = (None, ts ! Suc i))
         \<and> (if m = length (filter (\<lambda>n. Node_Name n \<noteq> Node_Name fm) nodes)
             then r = None \<and> t' = ts ! m
             else r \<noteq> None
                \<and> join env ((filter (\<lambda>n. Node_Name n \<noteq> Node_Name fm) nodes ! m)
                               \<lparr>Node_Spec_Cluster := Some (Cluster_Spec cluster)\<rparr>)
                     (Node_Status_IPAddresses fm) tok opts (ts ! m) = (r, t'))"
  using assms
proof (induction nodes arbitrary: t)
  case Nil
  then show ?case by (intro exI[of _ 0] exI[of _ "[t]"]) simp
next
  case (Cons n ns)
  let ?js = "filter (\<lambda>n. Node_Name n \<noteq> Node_Name fm) ns"
  show ?case
  proof (cases "Node_Name n = Node_Name fm")
    case True
    have jsT: "filter (\<lambda>n. Node_Name n \<noteq> Node_Name fm) (n # ns) = ?js"
      using True by simp
    from True Cons.prems have "Deploy_join_nodes env cluster fm tok opts ns t = (r, t')" by simp
    from Cons.IH[OF this] show ?thesis unfolding jsT .
  next
    case False
    let ?n = "n\<lparr>Node_Spec_Cluster := Some (Cluster_Spec cluster)\<rparr>"
    have js: "filter (\<lambda>n. Node_Name n \<noteq> Node_Name fm) (n # ns) = n # ?js"
      using False by simp
    obtain r1 t1 where j: "join env ?n (Node_Status_IPAddresses fm) tok opts t = (r1, t1)"
      by (metis surj_pair)
    show ?thesis
    proof (cases r1)
      case (Some e)
      with Cons.prems False j have "r = Some e" "t' = t1" by simp_all
      with j Some show ?thesis
        unfolding js by (intro exI[of _ 0] exI[of _ "[t]"]) simp
    next
      case None
      with Cons.prems False j have "Deploy_join_nodes env cluster fm tok opts ns t1 = (r, t')"
        by simp
      from Cons.IH[OF this] obtain m ts where m: "m \<le> length ?js" "length ts = Suc m"
        "ts ! 0 = t1"
        and ch: "\<forall>i < m. join env ((?js ! i)\<lparr>Node_Spec_Cluster := Some (Cluster_Spec cluster)\<rparr>)
                 (Node_Status_IPAddresses fm) tok opts (ts ! i) = (None, ts ! Suc i)"
        and fin: "if m = length ?js then r = None \<and> t' = ts ! m
             else r \<noteq> None
                \<and> join env ((?js ! m)\<lparr>Node_Spec_Cluster := Some (Cluster_Spec cluster)\<rparr>)
                     (Node_Status_IPAddresses fm) tok opts (ts ! m) = (r, t')"
        by blast
      have ch': "\<forall>i < Suc m.
               join env (((n # ?js) ! i)\<lparr>Node_Spec_Cluster := Some (Cluster_Spec cluster)\<rparr>)
                 (Node_Status_IPAddresses fm) tok opts ((t # ts) ! i) = (None, (t # ts) ! Suc i)"
      proof (intro allI impI)
        fix i assume "i < Suc m"
        show "join env (((n # ?js) ! i)\<lparr>Node_Spec_Cluster := Some (Cluster_Spec cluster)\<rparr>)
                 (Node_Status_IPAddresses fm) tok opts ((t # ts) ! i) = (None, (t # ts) ! Suc i)"
        proof (cases i)
          case 0
          with j None m(3) show ?thesis by simp
        next
          case (Suc i')
          with \<open>i < Suc m\<close> ch show ?thesis by simp
        qed
      qed
      show ?thesis
        unfolding js
        apply (rule exI[of _ "Suc m"])
        apply (rule exI[of _ "t # ts"])
        apply (intro conjI)
            apply (simp add: m(1))
           apply (simp add: m(2))
          apply simp
         apply (rule ch')
        using fin apply (simp split: if_splits)
        done
    qed
  qed
qed

lemma Deploy_join_nodes_fails_at:
  assumes "length ts = Suc m" and "ts ! 0 = t"
    and "m < length (filter (\<lambda>n. Node_Name n \<noteq> Node_Name fm) nodes)"
    and "\<forall>i < m.
           join env ((filter (\<lambda>n. Node_Name n \<noteq> Node_Name fm) nodes ! i)
                       \<lparr>Node_Spec_Cluster := Some (Cluster_Spec cluster)\<rparr>)
             (Node_Status_IPAddresses fm) tok opts (ts ! i) = (None, ts ! Suc i)"
    and "join env ((filter (\<lambda>n. Node_Name n \<noteq> Node_Name fm) nodes ! m)
                     \<lparr>Node_Spec_Cluster := Some (Cluster_Spec cluster)\<rparr>)
           (Node_Status_IPAddresses fm) tok opts (ts ! m) = (Some err, t'')"
  shows "Deploy_join_nodes env cluster fm tok opts nodes t = (Some err, t'')"
  using assms
proof (induction nodes arbitrary: t m ts)
  case Nil
  then show ?case by simp
next
  case (Cons n ns)
  let ?js = "filter (\<lambda>n. Node_Name n \<noteq> Node_Name fm) ns"
  show ?case
  proof (cases "Node_Name n = Node_Name fm")
    case True
    have jsT: "filter (\<lambda>n. Node_Name n \<noteq> Node_Name fm) (n # ns) = ?js"
      using True by simp
    have "Deploy_join_nodes env cluster fm tok opts ns t = (Some err, t'')"
      using Cons.prems unfolding jsT by (rule Cons.IH)
    with True show ?thesis by simp
  next
    case False
    let ?n = "n\<lparr>Node_Spec_Cluster := Some (Cluster_Spec cluster)\<rparr>"
    have js: "filter (\<lambda>n. Node_Name n \<noteq> Node_Name fm) (n # ns) = n # ?js"
      using False by simp
    show ?thesis
    proof (cases m)
      case 0
      with Cons.prems(2,5) have "join env ?n (Node_Status_IPAddresses fm) tok opts t = (Some err, t'')"
        unfolding js by simp
      with False show ?thesis by simp
    next
      case (Suc m')
      from Cons.prems(1) Suc obtain t0 ts' where ts: "ts = t0 # ts'" "length ts' = Suc m'"
        by (cases ts) auto
      from Cons.prems(2) ts have t0: "t0 = t" by simp
      from Cons.prems(4) Suc have "join env (((n # ?js) ! 0)\<lparr>Node_Spec_Cluster := Some (Cluster_Spec cluster)\<rparr>)
             (Node_Status_IPAddresses fm) tok opts (ts ! 0) = (None, ts ! Suc 0)"
        unfolding js by blast
      then have j0: "join env ?n (Node_Status_IPAddresses fm) tok opts t = (None, ts' ! 0)"
        using ts t0 by simp
      have ch: "\<forall>i < m'. join env ((?js ! i)\<lparr>Node_Spec_Cluster := Some (Cluster_Spec cluster)\<rparr>)
             (Node_Status_IPAddresses fm) tok opts (ts' ! i) = (None, ts' ! Suc i)"
      proof (intro allI impI)
        fix i assume "i < m'"
        then have "Suc i < m" using Suc by simp
        with Cons.prems(4) have "join env (((n # ?js) ! Suc i)\<lparr>Node_Spec_Cluster := Some (Cluster_Spec cluster)\<rparr>)
             (Node_Status_IPAddresses fm) tok opts (ts ! Suc i) = (None, ts ! Suc (Suc i))"
          unfolding js by blast
        then show "join env ((?js ! i)\<lparr>Node_Spec_Cluster := Some (Cluster_Spec cluster)\<rparr>)
             (Node_Status_IPAddresses fm) tok opts (ts' ! i) = (None, ts' ! Suc i)"
          using ts by simp
      qed
      have lt: "m' < length ?js" using Cons.prems(3) Suc unfolding js by simp
      have last: "join env ((?js ! m')\<lparr>Node_Spec_Cluster := Some (Cluster_Spec cluster)\<rparr>)
           (Node_Status_IPAddresses fm) tok opts (ts' ! m') = (Some err, t'')"
        using Cons.prems(5) Suc ts unfolding js by simp
      have "Deploy_join_nodes env cluster fm tok opts ns (ts' ! 0) = (Some err, t'')"
        by (rule Cons.IH[OF ts(2) refl lt ch last])
      with False j0 show ?thesis by simp
    qed
  qed
qed

lemma Deploy_join_nodes_all_ok:
  assumes "length ts = Suc (length (filter (\<lambda>n. Node_Name n \<noteq> Node_Name fm) nodes))"
    and "ts ! 0 = t"
    and "\<forall>i < length (filter (\<lambda>n. Node_Name n \<noteq> Node_Name fm) nodes).
           join env ((filter (\<lambda>n. Node_Name n \<noteq> Node_Name fm) nodes ! i)
                       \<lparr>Node_Spec_Cluster := Some (Cluster_Spec cluster)\<rparr>)
             (Node_Status_IPAddresses fm) tok opts (ts ! i) = (None, ts ! Suc i)"
  shows "Deploy_join_nodes env cluster fm tok opts nodes t
           = (None, ts ! length (filter (\<lambda>n. Node_Name n \<noteq> Node_Name fm) nodes))"
  using assms
proof (induction nodes arbitrary: t ts)
  case Nil
  then show ?case by simp
next
  case (Cons n ns)
  let ?js = "filter (\<lambda>n. Node_Name n \<noteq> Node_Name fm) ns"
  show ?case
  proof (cases "Node_Name n = Node_Name fm")
    case True
    have jsT: "filter (\<lambda>n. Node_Name n \<noteq> Node_Name fm) (n # ns) = ?js"
      using True by simp
    have "Deploy_join_nodes env cluster fm tok opts ns t = (None, ts ! length ?js)"
      using Cons.prems unfolding jsT by (rule Cons.IH)
    with True show ?thesis unfolding jsT by simp
  next
    case False
    let ?n = "n\<lparr>Node_Spec_Cluster := Some (Cluster_Spec cluster)\<rparr>"
    have js: "filter (\<lambda>n. Node_Name n \<noteq> Node_Name fm) (n # ns) = n # ?js"
      using False by simp
    from Cons.prems(1) obtain t0 ts' where ts: "ts = t0 # ts'" "length ts' = Suc (length ?js)"
      unfolding js by (cases ts) auto
    from Cons.prems(2) ts have t0: "t0 = t" by simp
    have "0 < length (n # ?js)" by simp
    with Cons.prems(3) have "join env (((n # ?js) ! 0)\<lparr>Node_Spec_Cluster := Some (Cluster_Spec cluster)\<rparr>)
             (Node_Status_IPAddresses fm) tok opts (ts ! 0) = (None, ts ! Suc 0)"
      unfolding js by blast
    then have j0: "join env ?n (Node_Status_IPAddresses fm) tok opts t = (None, ts' ! 0)"
      using ts t0 by simp
    have ch: "\<forall>i < length ?js. join env ((?js ! i)\<lparr>Node_Spec_Cluster := Some (Cluster_Spec cluster)\<rparr>)
             (Node_Status_IPAddresses fm) tok opts (ts' ! i) = (None, ts' ! Suc i)"
    proof (intro allI impI)
      fix i assume "i < length ?js"
      then have "Suc i < length (n # ?js)" by simp
      with Cons.prems(3) have "join env (((n # ?js) ! Suc i)\<lparr>Node_Spec_Cluster := Some (Cluster_Spec cluster)\<rparr>)
             (Node_Status_IPAddresses fm) tok opts (ts ! Suc i) = (None, ts ! Suc (Suc i))"
        unfolding js by blast
      then show "join env ((?js ! i)\<lparr>Node_Spec_Cluster := Some (Cluster_Spec cluster)\<rparr>)
             (Node_Status_IPAddresses fm) tok opts (ts' ! i) = (None, ts' ! Suc i)"
        using ts by simp
    qed
    have "Deploy_join_nodes env cluster fm tok opts ns (ts' ! 0) = (None, ts' ! length ?js)"
      by (rule Cons.IH[OF ts(2) refl ch])
    with False j0 ts show ?thesis unfolding js by simp
  qed
qed

lemma join_chain_connects:
  assumes "m \<le> length js"
    and "\<forall>i < m. join env ((js ! i)\<lparr>Node_Spec_Cluster := Some spec\<rparr>) addr tok opts (ts ! i)
                   = (None, ts ! Suc i)"
  shows "\<exists>A. ts ! m = ts ! 0 @ A \<and> connects A = map Node_Name (take m js)"
  using assms
proof (induction m)
  case 0
  show ?case by (intro exI[of _ "[]"]) simp
next
  case (Suc m)
  then obtain A where A: "ts ! m = ts ! 0 @ A" "connects A = map Node_Name (take m js)"
    by auto
  from Suc.prems have j: "join env ((js ! m)\<lparr>Node_Spec_Cluster := Some spec\<rparr>) addr tok opts
                            (ts ! m) = (None, ts ! Suc m)" by simp
  have "Node_Spec_Cluster ((js ! m)\<lparr>Node_Spec_Cluster := Some spec\<rparr>) = Some spec" by simp
  from join_trace[OF j this] obtain a where a: "ts ! Suc m = ts ! m @ a"
    "connects a = [Node_Name (js ! m)]" by auto
  from Suc.prems(1) have "take (Suc m) js = take m js @ [js ! m]"
    by (simp add: take_Suc_conv_app_nth)
  with A a show ?case by (intro exI[of _ "A @ a"]) simp
qed

text \<open>
  C6. When \<open>Deploy\<close> has bootstrapped the primary and the listing is not empty, it joins
  the listed nodes other than the primary in the order of the listing, each on the trace
  that the join before it left, starting right after the listing. The joins of the first
  \<open>m\<close> of them return no error. Either these are all of them, and \<open>Deploy\<close> returns no
  error; or the join of the next node fails, and \<open>Deploy\<close> returns the error of that join
  and ends with the trace of that join, so no node after it is attempted. The sessions
  opened after the listing are those of the nodes that were attempted, in order. In the
  other direction: whenever the joins of the first \<open>m\<close> nodes return no error and the join
  of the next node fails, \<open>Deploy\<close> returns that error and that trace; and whenever the
  joins of all of them return no error, \<open>Deploy\<close> returns no error.
\<close>

theorem join_in_list_order:
  assumes boot: "Deploy_bootstrapped env cluster before_hook t
                   = Inr ((firstMaster, joinToken, extraOptions), t1)"
    and list: "nodeManager_ListNodes env t1 (Cluster_Name cluster) = Inr nodes"
    and ne: "nodes \<noteq> []"
    and res: "Deploy env cluster before_hook t = (r, t')"
  shows "(\<exists>m ts added.
            m \<le> length (Deploy_join_targets firstMaster nodes) \<and> length ts = Suc m
          \<and> ts ! 0 = t1 @ [CallListNodes (Cluster_Name cluster)]
          \<and> (\<forall>i < m.
                join env ((Deploy_join_targets firstMaster nodes ! i)
                            \<lparr>Node_Spec_Cluster := Some (Cluster_Spec cluster)\<rparr>)
                  (Node_Status_IPAddresses firstMaster) joinToken extraOptions (ts ! i)
                = (None, ts ! Suc i))
          \<and> (if m = length (Deploy_join_targets firstMaster nodes)
              then r = None \<and> t' = ts ! m
              else r \<noteq> None
                 \<and> join env ((Deploy_join_targets firstMaster nodes ! m)
                                \<lparr>Node_Spec_Cluster := Some (Cluster_Spec cluster)\<rparr>)
                      (Node_Status_IPAddresses firstMaster) joinToken extraOptions (ts ! m)
                    = (r, t'))
          \<and> t' = t1 @ CallListNodes (Cluster_Name cluster) # added
          \<and> connects added
              = map Node_Name
                  (take (if m = length (Deploy_join_targets firstMaster nodes) then m else Suc m)
                     (Deploy_join_targets firstMaster nodes)))
       \<and> (\<forall>m ts err t''.
            length ts = Suc m \<and> ts ! 0 = t1 @ [CallListNodes (Cluster_Name cluster)]
          \<and> m < length (Deploy_join_targets firstMaster nodes)
          \<and> (\<forall>i < m.
                join env ((Deploy_join_targets firstMaster nodes ! i)
                            \<lparr>Node_Spec_Cluster := Some (Cluster_Spec cluster)\<rparr>)
                  (Node_Status_IPAddresses firstMaster) joinToken extraOptions (ts ! i)
                = (None, ts ! Suc i))
          \<and> join env ((Deploy_join_targets firstMaster nodes ! m)
                         \<lparr>Node_Spec_Cluster := Some (Cluster_Spec cluster)\<rparr>)
               (Node_Status_IPAddresses firstMaster) joinToken extraOptions (ts ! m)
             = (Some err, t'')
          \<longrightarrow> r = Some err \<and> t' = t'')
       \<and> (\<forall>ts.
            length ts = Suc (length (Deploy_join_targets firstMaster nodes))
          \<and> ts ! 0 = t1 @ [CallListNodes (Cluster_Name cluster)]
          \<and> (\<forall>i < length (Deploy_join_targets firstMaster nodes).
                join env ((Deploy_join_targets firstMaster nodes ! i)
                            \<lparr>Node_Spec_Cluster := Some (Cluster_Spec cluster)\<rparr>)
                  (Node_Status_IPAddresses firstMaster) joinToken extraOptions (ts ! i)
                = (None, ts ! Suc i))
          \<longrightarrow> r = None \<and> t' = ts ! length (Deploy_join_targets firstMaster nodes))"
proof -
  let ?tl = "t1 @ [CallListNodes (Cluster_Name cluster)]"
  let ?js = "filter (\<lambda>n. Node_Name n \<noteq> Node_Name firstMaster) nodes"
  have l: "Deploy_join_nodes env cluster firstMaster joinToken extraOptions nodes ?tl = (r, t')"
    using boot list ne res by (simp add: Deploy_def Deploy_joins_def)
  from Deploy_join_nodes_chain[OF l] obtain m ts where m: "m \<le> length ?js" "length ts = Suc m"
    "ts ! 0 = ?tl"
    and ch: "\<forall>i < m.
               join env ((?js ! i)\<lparr>Node_Spec_Cluster := Some (Cluster_Spec cluster)\<rparr>)
                 (Node_Status_IPAddresses firstMaster) joinToken extraOptions (ts ! i)
               = (None, ts ! Suc i)"
    and fin: "if m = length ?js then r = None \<and> t' = ts ! m
              else r \<noteq> None
                 \<and> join env ((?js ! m)\<lparr>Node_Spec_Cluster := Some (Cluster_Spec cluster)\<rparr>)
                      (Node_Status_IPAddresses firstMaster) joinToken extraOptions (ts ! m)
                    = (r, t')"
    by blast
  from join_chain_connects[OF m(1) ch] m(3) obtain A where
    A: "ts ! m = ?tl @ A" "connects A = map Node_Name (take m ?js)" by auto
  have "\<exists>added. t' = t1 @ CallListNodes (Cluster_Name cluster) # added
          \<and> connects added = map Node_Name (take (if m = length ?js then m else Suc m) ?js)"
  proof (cases "m = length ?js")
    case True
    with fin A show ?thesis by (intro exI[of _ A]) simp
  next
    case False
    with fin have j: "join env ((?js ! m)\<lparr>Node_Spec_Cluster := Some (Cluster_Spec cluster)\<rparr>)
                      (Node_Status_IPAddresses firstMaster) joinToken extraOptions (ts ! m)
                    = (r, t')" by simp
    have "Node_Spec_Cluster ((?js ! m)\<lparr>Node_Spec_Cluster := Some (Cluster_Spec cluster)\<rparr>)
            = Some (Cluster_Spec cluster)" by simp
    from join_trace[OF j this] obtain a where a: "t' = ts ! m @ a"
      "connects a = [Node_Name (?js ! m)]" by auto
    from False m(1) have "take (Suc m) ?js = take m ?js @ [?js ! m]"
      by (simp add: take_Suc_conv_app_nth)
    with A a False show ?thesis by (intro exI[of _ "A @ a"]) simp
  qed
  then obtain added where ad: "t' = t1 @ CallListNodes (Cluster_Name cluster) # added"
    "connects added = map Node_Name (take (if m = length ?js then m else Suc m) ?js)" by blast
  have part1: "\<exists>m ts added.
               m \<le> length ?js \<and> length ts = Suc m
             \<and> ts ! 0 = t1 @ [CallListNodes (Cluster_Name cluster)]
             \<and> (\<forall>i < m.
                   join env ((?js ! i)\<lparr>Node_Spec_Cluster := Some (Cluster_Spec cluster)\<rparr>)
                     (Node_Status_IPAddresses firstMaster) joinToken extraOptions (ts ! i)
                   = (None, ts ! Suc i))
             \<and> (if m = length ?js then r = None \<and> t' = ts ! m
                 else r \<noteq> None
                    \<and> join env ((?js ! m)\<lparr>Node_Spec_Cluster := Some (Cluster_Spec cluster)\<rparr>)
                         (Node_Status_IPAddresses firstMaster) joinToken extraOptions (ts ! m)
                       = (r, t'))
             \<and> t' = t1 @ CallListNodes (Cluster_Name cluster) # added
             \<and> connects added
                 = map Node_Name (take (if m = length ?js then m else Suc m) ?js)"
    apply (rule exI[of _ m])
    apply (rule exI[of _ ts])
    apply (rule exI[of _ added])
    apply (intro conjI)
          apply (rule m(1))
         apply (rule m(2))
        apply (rule m(3))
       apply (rule ch)
      apply (rule fin)
     apply (rule ad(1))
    apply (rule ad(2))
    done
  have part2: "\<forall>m ts err t''.
               length ts = Suc m \<and> ts ! 0 = t1 @ [CallListNodes (Cluster_Name cluster)]
             \<and> m < length ?js
             \<and> (\<forall>i < m.
                   join env ((?js ! i)\<lparr>Node_Spec_Cluster := Some (Cluster_Spec cluster)\<rparr>)
                     (Node_Status_IPAddresses firstMaster) joinToken extraOptions (ts ! i)
                   = (None, ts ! Suc i))
             \<and> join env ((?js ! m)\<lparr>Node_Spec_Cluster := Some (Cluster_Spec cluster)\<rparr>)
                  (Node_Status_IPAddresses firstMaster) joinToken extraOptions (ts ! m)
                = (Some err, t'')
             \<longrightarrow> r = Some err \<and> t' = t''"
  proof (intro allI impI, elim conjE)
    fix m ts err t''
    assume "length ts = Suc m" "ts ! 0 = t1 @ [CallListNodes (Cluster_Name cluster)]"
      "m < length ?js"
      "\<forall>i < m.
         join env ((?js ! i)\<lparr>Node_Spec_Cluster := Some (Cluster_Spec cluster)\<rparr>)
           (Node_Status_IPAddresses firstMaster) joinToken extraOptions (ts ! i)
         = (None, ts ! Suc i)"
      "join env ((?js ! m)\<lparr>Node_Spec_Cluster := Some (Cluster_Spec cluster)\<rparr>)
         (Node_Status_IPAddresses firstMaster) joinToken extraOptions (ts ! m)
       = (Some err, t'')"
    from Deploy_join_nodes_fails_at[OF this] l show "r = Some err \<and> t' = t''" by simp
  qed
  have part3: "\<forall>ts.
               length ts = Suc (length ?js)
             \<and> ts ! 0 = t1 @ [CallListNodes (Cluster_Name cluster)]
             \<and> (\<forall>i < length ?js.
                   join env ((?js ! i)\<lparr>Node_Spec_Cluster := Some (Cluster_Spec cluster)\<rparr>)
                     (Node_Status_IPAddresses firstMaster) joinToken extraOptions (ts ! i)
                   = (None, ts ! Suc i))
             \<longrightarrow> r = None \<and> t' = ts ! length ?js"
  proof (intro allI impI, elim conjE)
    fix ts
    assume "length ts = Suc (length ?js)" "ts ! 0 = t1 @ [CallListNodes (Cluster_Name cluster)]"
      "\<forall>i < length ?js.
         join env ((?js ! i)\<lparr>Node_Spec_Cluster := Some (Cluster_Spec cluster)\<rparr>)
           (Node_Status_IPAddresses firstMaster) joinToken extraOptions (ts ! i)
         = (None, ts ! Suc i)"
    from Deploy_join_nodes_all_ok[OF this] l show "r = None \<and> t' = ts ! length ?js" by simp
  qed
  from part1 part2 part3 show ?thesis
    unfolding Deploy_join_targets_def by (intro conjI)
qed

theorem join_in_list_order_witness:
  "\<exists>fm tok opts t1 t'.
     Deploy_bootstrapped
       (demo_env [demo_master, demo_worker1, demo_worker2] connect_ok
          (run_join_fails ''demo-worker-1'' ''K10secret'') 0)
       (demo_cluster [demo_master, demo_worker1, demo_worker2]) None []
       = Inr ((fm, tok, opts), t1)
   \<and> nodeManager_ListNodes
       (demo_env [demo_master, demo_worker1, demo_worker2] connect_ok
          (run_join_fails ''demo-worker-1'' ''K10secret'') 0) t1 ''demo''
       = Inr [demo_master, demo_worker1, demo_worker2]
   \<and> join
       (demo_env [demo_master, demo_worker1, demo_worker2] connect_ok
          (run_join_fails ''demo-worker-1'' ''K10secret'') 0)
       (demo_worker1\<lparr>Node_Spec_Cluster := Some demo_spec\<rparr>) ''10.0.0.1'' tok opts
       (t1 @ [CallListNodes ''demo''])
       = (Some (WithStack (External ''exit status 1'')), t')
   \<and> Deploy
       (demo_env [demo_master, demo_worker1, demo_worker2] connect_ok
          (run_join_fails ''demo-worker-1'' ''K10secret'') 0)
       (demo_cluster [demo_master, demo_worker1, demo_worker2]) None []
       = (Some (WithStack (External ''exit status 1'')), t')
   \<and> connects (drop (length t1) t') = [''demo-worker-1'']"
proof -
  let ?E = "demo_env [demo_master, demo_worker1, demo_worker2] connect_ok
          (run_join_fails ''demo-worker-1'' ''K10secret'') 0"
  let ?C = "demo_cluster [demo_master, demo_worker1, demo_worker2]"
  let ?w = "demo_worker1\<lparr>Node_Spec_Cluster := Some demo_spec\<rparr>"
  have "\<exists>fm tok opts t1. Deploy_bootstrapped ?E ?C None [] = Inr ((fm, tok, opts), t1)"
    by (simp add: model_defs demo_defs)
  then obtain fm tok opts t1 where
    h: "Deploy_bootstrapped ?E ?C None [] = Inr ((fm, tok, opts), t1)" by blast
  have l: "nodeManager_ListNodes ?E t1 (Cluster_Name ?C)
             = Inr [demo_master, demo_worker1, demo_worker2]"
    by (simp add: demo_env_def)
  have ne: "[demo_master, demo_worker1, demo_worker2] \<noteq> []" by simp
  obtain r t' where d: "Deploy ?E ?C None [] = (r, t')" by (metis surj_pair)
  from h have v: "Node_Name fm = ''demo-master-1''" "Node_Status_IPAddresses fm = ''10.0.0.1''"
    by (auto simp: model_defs demo_defs)
  have c: "Cluster_Name ?C = ''demo''" "Cluster_Spec ?C = demo_spec"
    by (simp_all add: demo_cluster_def)
  let ?tl = "t1 @ [CallListNodes ''demo'']"
  let ?tj = "?tl @ [CallNewClient ''demo-worker-1'' ''id_rsa'' ''root'' ''10.0.0.2'',
                    CallRun ''demo-worker-1'' [join_cmdline ?w ''10.0.0.1'' tok opts],
                    CallClose ''demo-worker-1'']"
  have j: "join ?E ?w ''10.0.0.1'' tok opts ?tl
             = (Some (WithStack (External ''exit status 1'')), ?tj)"
    by (simp add: join_def Let_def demo_defs)
  have f: "filter (\<lambda>n. Node_Name n \<noteq> Node_Name fm) [demo_master, demo_worker1, demo_worker2]
             = [demo_worker1, demo_worker2]"
    by (simp add: v demo_master_def demo_worker1_def demo_worker2_def demo_node_def)
  have tg: "Deploy_join_targets fm [demo_master, demo_worker1, demo_worker2]
              = [demo_worker1, demo_worker2]"
    unfolding Deploy_join_targets_def by (rule f)
  from join_in_list_order[OF h l ne d, THEN conjunct2, THEN conjunct1]
  have fw: "\<forall>m ts err t''.
               length ts = Suc m \<and> ts ! 0 = ?tl
             \<and> m < length [demo_worker1, demo_worker2]
             \<and> (\<forall>i < m.
                   join ?E (([demo_worker1, demo_worker2] ! i)\<lparr>Node_Spec_Cluster := Some demo_spec\<rparr>)
                     ''10.0.0.1'' tok opts (ts ! i)
                   = (None, ts ! Suc i))
             \<and> join ?E (([demo_worker1, demo_worker2] ! m)\<lparr>Node_Spec_Cluster := Some demo_spec\<rparr>)
                  ''10.0.0.1'' tok opts (ts ! m)
                = (Some err, t'')
             \<longrightarrow> r = Some err \<and> t' = t''"
    unfolding tg v c .
  from fw[rule_format, of "[?tl]" 0 "WithStack (External ''exit status 1'')" ?tj] j
  have "r = Some (WithStack (External ''exit status 1''))" "t' = ?tj" by simp_all
  with d have d': "Deploy ?E ?C None [] = (Some (WithStack (External ''exit status 1'')), ?tj)"
    by simp
  have "connects (drop (length t1) ?tj) = [''demo-worker-1'']" by simp
  with h l j d' show ?thesis unfolding c by blast
qed

subsection \<open>The join token is not checked\<close>

lemma Deploy_join_nodes_first:
  assumes "filter (\<lambda>m. Node_Name m \<noteq> Node_Name fm) nodes = n # rest"
    and "Deploy_join_nodes env cluster fm tok opts nodes t = (r, t')"
  shows "\<exists>added.
           t' = t @ CallNewClient (Node_Name n) (Prikey (Cluster_Spec cluster)) ''root''
                      (Node_Status_IPAddresses n) # added
         \<and> (utilssh_NewClient env t (Node_Name n) (Prikey (Cluster_Spec cluster)) ''root''
               (Node_Status_IPAddresses n) = None
              \<longrightarrow> (\<exists>added'. added
                     = CallRun (Node_Name n)
                         [join_cmdline (n\<lparr>Node_Spec_Cluster := Some (Cluster_Spec cluster)\<rparr>)
                            (Node_Status_IPAddresses fm) tok opts] # added'))"
  using assms
proof (induction nodes)
  case Nil
  then show ?case by simp
next
  case (Cons m ms)
  show ?case
  proof (cases "Node_Name m = Node_Name fm")
    case True
    with Cons show ?thesis by simp
  next
    case False
    with Cons.prems have mn: "m = n" by simp
    let ?n = "n\<lparr>Node_Spec_Cluster := Some (Cluster_Spec cluster)\<rparr>"
    obtain r1 t1 where j: "join env ?n (Node_Status_IPAddresses fm) tok opts t = (r1, t1)"
      by (metis surj_pair)
    have sc: "Node_Spec_Cluster ?n = Some (Cluster_Spec cluster)" by simp
    have "\<exists>a2. t' = t1 @ a2"
    proof (cases r1)
      case None
      with Cons.prems False j mn
      have "Deploy_join_nodes env cluster fm tok opts ms t1 = (r, t')" by simp
      from Deploy_join_nodes_extends[OF this] show ?thesis .
    next
      case (Some e)
      with Cons.prems False j mn show ?thesis by simp
    qed
    then obtain a2 where a2: "t' = t1 @ a2" by blast
    from join_trace[OF j sc] a2 show ?thesis by auto
  qed
qed

text \<open>
  C8, as amended. \<open>Deploy\<close> does not look at the join token. When it has bootstrapped
  the primary and the listing has a node other than the primary, it opens a session to
  the first such node right after the listing, whatever the token is, also when it is
  empty; and when that session is granted, it runs the join command with the token as
  harvested after \<open>K3S_TOKEN=\<close>.
\<close>

theorem join_attempted_whatever_token:
  assumes boot: "Deploy_bootstrapped env cluster before_hook t
                   = Inr ((firstMaster, joinToken, extraOptions), t1)"
    and list: "nodeManager_ListNodes env t1 (Cluster_Name cluster) = Inr nodes"
    and first: "filter (\<lambda>m. Node_Name m \<noteq> Node_Name firstMaster) nodes = n # rest"
  shows "\<exists>added.
           snd (Deploy env cluster before_hook t)
             = t1 @ [CallListNodes (Cluster_Name cluster),
                     CallNewClient (Node_Name n) (Prikey (Cluster_Spec cluster)) ''root''
                       (Node_Status_IPAddresses n)] @ added
         \<and> (utilssh_NewClient env (t1 @ [CallListNodes (Cluster_Name cluster)]) (Node_Name n)
               (Prikey (Cluster_Spec cluster)) ''root'' (Node_Status_IPAddresses n) = None
              \<longrightarrow> (\<exists>added'. added
                     = CallRun (Node_Name n)
                         [''INSTALL_K3S_EXEC='' @ [dquote]
                            @ strings_Join (join_k3sOpts n extraOptions) '' '' @ [dquote]
                            @ '' '' @ ExtraOptions extraOptions
                            @ ''K3S_URL=https://'' @ Node_Status_IPAddresses firstMaster
                            @ '':6443 K3S_TOKEN='' @ joinToken @ '' k3s-install.sh'']
                         # added'))"
proof -
  let ?tl = "t1 @ [CallListNodes (Cluster_Name cluster)]"
  from first have ne: "nodes \<noteq> []" by auto
  obtain r t' where d: "Deploy env cluster before_hook t = (r, t')" by (metis surj_pair)
  with boot list ne
  have l: "Deploy_join_nodes env cluster firstMaster joinToken extraOptions nodes ?tl = (r, t')"
    by (simp add: Deploy_def Deploy_joins_def)
  have jc: "join_cmdline (n\<lparr>Node_Spec_Cluster := Some (Cluster_Spec cluster)\<rparr>)
                 (Node_Status_IPAddresses firstMaster) joinToken extraOptions
            = ''INSTALL_K3S_EXEC='' @ [dquote]
                @ strings_Join (join_k3sOpts n extraOptions) '' '' @ [dquote]
                @ '' '' @ ExtraOptions extraOptions
                @ ''K3S_URL=https://'' @ Node_Status_IPAddresses firstMaster
                @ '':6443 K3S_TOKEN='' @ joinToken @ '' k3s-install.sh''"
    by (simp add: join_cmdline_def join_k3sOpts_def IsMaster_def)
  from Deploy_join_nodes_first[OF first l] show ?thesis
    unfolding jc by (simp add: d)
qed

theorem join_attempted_whatever_token_witness:
  "\<exists>fm opts t1 added.
     Deploy_bootstrapped (demo_env [demo_master, demo_worker1] connect_ok (run_ok [newline]) 0)
       (demo_cluster [demo_master, demo_worker1]) None [] = Inr ((fm, '''', opts), t1)
   \<and> filter (\<lambda>m. Node_Name m \<noteq> Node_Name fm) [demo_master, demo_worker1] = [demo_worker1]
   \<and> snd (Deploy (demo_env [demo_master, demo_worker1] connect_ok (run_ok [newline]) 0)
            (demo_cluster [demo_master, demo_worker1]) None [])
       = t1 @ [CallListNodes ''demo'',
               CallNewClient ''demo-worker-1'' ''id_rsa'' ''root'' ''10.0.0.2'',
               CallRun ''demo-worker-1''
                 [''INSTALL_K3S_EXEC='' @ [dquote, dquote]
                    @ '' INSTALL_K3S_VERSION=v1.18.8K3S_URL=https://10.0.0.1:6443 K3S_TOKEN= k3s-install.sh'']]
           @ added"
proof -
  let ?E = "demo_env [demo_master, demo_worker1] connect_ok (run_ok [newline]) 0"
  let ?C = "demo_cluster [demo_master, demo_worker1]"
  have "\<exists>fm opts t1. Deploy_bootstrapped ?E ?C None [] = Inr ((fm, '''', opts), t1)"
    by (simp add: model_defs demo_defs)
  then obtain fm opts t1 where
    h: "Deploy_bootstrapped ?E ?C None [] = Inr ((fm, '''', opts), t1)" by blast
  from h have v: "Node_Name fm = ''demo-master-1''" "Node_Status_IPAddresses fm = ''10.0.0.1''"
    "ServerInstallOpts opts = ''''" "AgentInstallOpts opts = ''''"
    "ExtraOptions opts = ''INSTALL_K3S_VERSION=v1.18.8''"
    by (auto simp: model_defs demo_defs)
  have l: "nodeManager_ListNodes ?E t1 (Cluster_Name ?C) = Inr [demo_master, demo_worker1]"
    by (simp add: demo_env_def)
  have f: "filter (\<lambda>m. Node_Name m \<noteq> Node_Name fm) [demo_master, demo_worker1] = [demo_worker1]"
    by (simp add: v demo_master_def demo_worker1_def demo_node_def)
  have c: "utilssh_NewClient ?E (t1 @ [CallListNodes (Cluster_Name ?C)]) (Node_Name demo_worker1)
             (Prikey (Cluster_Spec ?C)) ''root'' (Node_Status_IPAddresses demo_worker1) = None"
    by (simp add: demo_env_def connect_ok_def)
  from join_attempted_whatever_token[OF h l f] c obtain added' where
    "snd (Deploy ?E ?C None [])
       = t1 @ [CallListNodes (Cluster_Name ?C),
               CallNewClient (Node_Name demo_worker1) (Prikey (Cluster_Spec ?C)) ''root''
                 (Node_Status_IPAddresses demo_worker1)]
            @ CallRun (Node_Name demo_worker1)
                         [''INSTALL_K3S_EXEC='' @ [dquote]
                            @ strings_Join (join_k3sOpts demo_worker1 opts) '' '' @ [dquote]
                            @ '' '' @ ExtraOptions opts
                            @ ''K3S_URL=https://'' @ Node_Status_IPAddresses fm
                            @ '':6443 K3S_TOKEN='' @ '''' @ '' k3s-install.sh'']
                         # added'"
    by auto
  then have "snd (Deploy ?E ?C None [])
       = t1 @ [CallListNodes ''demo'',
               CallNewClient ''demo-worker-1'' ''id_rsa'' ''root'' ''10.0.0.2'',
               CallRun ''demo-worker-1''
                 [''INSTALL_K3S_EXEC='' @ [dquote, dquote]
                    @ '' INSTALL_K3S_VERSION=v1.18.8K3S_URL=https://10.0.0.1:6443 K3S_TOKEN= k3s-install.sh'']]
           @ added'"
    by (simp add: v join_k3sOpts_def IsMaster_def demo_cluster_def demo_worker1_def demo_node_def
          demo_spec_def)
  with h f show ?thesis by blast
qed

text \<open>
  C8 as stated fails: the token file of the primary is empty, so the harvested token is
  empty, and the join command is run on the worker all the same, with nothing after
  \<open>K3S_TOKEN=\<close>.
\<close>

theorem join_with_empty_token_counterexample:
  "Deploy_joinToken (demo_env [demo_master, demo_worker1] connect_ok (run_ok '''') 0)
     (demo_cluster [demo_master, demo_worker1]) None [] = Some ''''
   \<and> Deploy (demo_env [demo_master, demo_worker1] connect_ok (run_ok '''') 0)
       (demo_cluster [demo_master, demo_worker1]) None []
     = (None,
        [CallWaitNodesRunning ''demo'' 5,
         CallNewClient ''demo-master-1'' ''id_rsa'' ''root'' ''10.0.0.1'',
         CallRun ''demo-master-1''
           (init_cmds (demo_env [demo_master, demo_worker1] connect_ok (run_ok '''') 0)
              (demo_cluster [demo_master, demo_worker1])),
         CallClose ''demo-master-1'',
         CallNewClient ''demo-worker-1'' ''id_rsa'' ''root'' ''10.0.0.2'',
         CallRun ''demo-worker-1''
           (init_cmds (demo_env [demo_master, demo_worker1] connect_ok (run_ok '''') 0)
              (demo_cluster [demo_master, demo_worker1])),
         CallClose ''demo-worker-1'',
         CallGetNode ''demo-master-1'',
         CallNewClient ''demo-master-1'' ''id_rsa'' ''root'' ''10.0.0.1'',
         CallRun ''demo-master-1''
           [''INSTALL_K3S_EXEC='' @ [dquote] @ ''--bind-address=10.0.0.1 --cluster-init''
              @ [dquote] @ '' INSTALL_K3S_VERSION=v1.18.8 k3s-install.sh ''],
         CallRun ''demo-master-1'' [''cat /var/lib/rancher/k3s/server/node-token''],
         CallClose ''demo-master-1'',
         CallListNodes ''demo'',
         CallNewClient ''demo-worker-1'' ''id_rsa'' ''root'' ''10.0.0.2'',
         CallRun ''demo-worker-1''
           [''INSTALL_K3S_EXEC='' @ [dquote, dquote]
              @ '' INSTALL_K3S_VERSION=v1.18.8K3S_URL=https://10.0.0.1:6443 K3S_TOKEN= k3s-install.sh''],
         CallClose ''demo-worker-1''])"
  by (simp add: Deploy_joinToken_def model_defs demo_defs)

subsection \<open>Retries and failures of the initialization\<close>

lemma init_effect_refl: "init_effect env cluster N s s"
  unfolding init_effect_def by (intro exI[of _ "[]"]) simp

lemma init_effectI:
  assumes "fst s' = fst s @ added" and "snd s' = snd s @ errs"
    and "\<And>name cmds. (name, cmds) \<in> set (runs added) \<Longrightarrow> cmds = init_cmds env cluster"
    and "\<And>e. e \<in> set errs \<Longrightarrow> \<exists>n \<in> N. \<exists>m.
           e = WithMessage (External m) (''failed on node ('' @ Node_Name n @ '')'')"
  shows "init_effect env cluster N s s'"
  unfolding init_effect_def
  apply (rule exI[of _ added])
  apply (rule exI[of _ errs])
  apply (intro conjI allI impI ballI)
     apply (rule assms(1))
    apply (rule assms(2))
   apply (erule assms(3))
  apply (erule assms(4))
  done

lemma init_effectE:
  assumes "init_effect env cluster N s s'"
  obtains added errs where "fst s' = fst s @ added" and "snd s' = snd s @ errs"
    and "\<And>name cmds. (name, cmds) \<in> set (runs added) \<Longrightarrow> cmds = init_cmds env cluster"
    and "\<And>e. e \<in> set errs \<Longrightarrow> \<exists>n \<in> N. \<exists>m.
           e = WithMessage (External m) (''failed on node ('' @ Node_Name n @ '')'')"
proof -
  from assms obtain added errs where
    "fst s' = fst s @ added \<and> snd s' = snd s @ errs
      \<and> (\<forall>name cmds. (name, cmds) \<in> set (runs added) \<longrightarrow> cmds = init_cmds env cluster)
      \<and> (\<forall>e \<in> set errs. \<exists>n \<in> N. \<exists>m.
             e = WithMessage (External m) (''failed on node ('' @ Node_Name n @ '')''))"
    unfolding init_effect_def by (elim exE)
  then show thesis
    by (intro that[of added errs]) simp_all
qed

lemma init_effect_trans:
  assumes "init_effect env cluster N s s'" and "init_effect env cluster N s' s''"
  shows "init_effect env cluster N s s''"
proof -
  from assms(1) obtain a1 e1 where 1: "fst s' = fst s @ a1" "snd s' = snd s @ e1"
    "\<And>name cmds. (name, cmds) \<in> set (runs a1) \<Longrightarrow> cmds = init_cmds env cluster"
    "\<And>e. e \<in> set e1 \<Longrightarrow> \<exists>n \<in> N. \<exists>m.
       e = WithMessage (External m) (''failed on node ('' @ Node_Name n @ '')'')"
    by (rule init_effectE) blast
  from assms(2) obtain a2 e2 where 2: "fst s'' = fst s' @ a2" "snd s'' = snd s' @ e2"
    "\<And>name cmds. (name, cmds) \<in> set (runs a2) \<Longrightarrow> cmds = init_cmds env cluster"
    "\<And>e. e \<in> set e2 \<Longrightarrow> \<exists>n \<in> N. \<exists>m.
       e = WithMessage (External m) (''failed on node ('' @ Node_Name n @ '')'')"
    by (rule init_effectE) blast
  show ?thesis
  proof (rule init_effectI[where added = "a1 @ a2" and errs = "e1 @ e2"])
    show "fst s'' = fst s @ a1 @ a2" using 1(1) 2(1) by simp
    show "snd s'' = snd s @ e1 @ e2" using 1(2) 2(2) by simp
  next
    fix name cmds assume "(name, cmds) \<in> set (runs (a1 @ a2))"
    then have "(name, cmds) \<in> set (runs a1) \<or> (name, cmds) \<in> set (runs a2)" by simp
    with 1(3) 2(3) show "cmds = init_cmds env cluster" by blast
  next
    fix e assume "e \<in> set (e1 @ e2)"
    then have "e \<in> set e1 \<or> e \<in> set e2" by simp
    with 1(4) 2(4) show "\<exists>n \<in> N. \<exists>m.
       e = WithMessage (External m) (''failed on node ('' @ Node_Name n @ '')'')" by blast
  qed
qed

lemma init_effect_mono:
  assumes "init_effect env cluster N s s'" and "N \<subseteq> M"
  shows "init_effect env cluster M s s'"
proof -
  from assms(1) obtain a1 e1 where 1: "fst s' = fst s @ a1" "snd s' = snd s @ e1"
    "\<And>name cmds. (name, cmds) \<in> set (runs a1) \<Longrightarrow> cmds = init_cmds env cluster"
    "\<And>e. e \<in> set e1 \<Longrightarrow> \<exists>n \<in> N. \<exists>m.
       e = WithMessage (External m) (''failed on node ('' @ Node_Name n @ '')'')"
    by (rule init_effectE) blast
  show ?thesis
  proof (rule init_effectI[OF 1(1) 1(2) 1(3)])
    fix e assume "e \<in> set e1"
    from 1(4)[OF this] assms(2) show "\<exists>n \<in> M. \<exists>m.
       e = WithMessage (External m) (''failed on node ('' @ Node_Name n @ '')'')" by blast
  qed
qed

lemma init_retryable_effect:
  "init_effect env cluster {n} s (snd (init_retryable env cluster n s))"
proof (cases s)
  case (Pair t chErr)
  obtain r t' chErr' where f: "init_retryable env cluster n (t, chErr) = (r, t', chErr')"
    by (metis prod_cases3)
  let ?c = "CallNewClient (Node_Name n) (Prikey (Cluster_Spec cluster)) ''root''
              (Node_Status_IPAddresses n)"
  from init_retryable_cases[OF f]
  consider (refused) "t' = t @ [?c]" "chErr' = chErr"
    | (ran) "t' = t @ [?c, CallRun (Node_Name n) (init_cmds env cluster), CallClose (Node_Name n)]"
        "chErr' = chErr"
    | (failed) m where
        "t' = t @ [?c, CallRun (Node_Name n) (init_cmds env cluster), CallClose (Node_Name n)]"
        "chErr' = chErr @ [WithMessage (External m) (''failed on node ('' @ Node_Name n @ '')'')]"
    by blast
  then show ?thesis
  proof cases
    case refused
    then show ?thesis
      unfolding Pair f by (intro init_effectI[where added = "[?c]" and errs = "[]"]) simp_all
  next
    case ran
    then show ?thesis
      unfolding Pair f
      by (intro init_effectI[where added = "[?c, CallRun (Node_Name n) (init_cmds env cluster),
                                     CallClose (Node_Name n)]" and errs = "[]"]) simp_all
  next
    case failed
    then show ?thesis
      unfolding Pair f
      by (intro init_effectI[where added = "[?c, CallRun (Node_Name n) (init_cmds env cluster),
                                     CallClose (Node_Name n)]" and errs =
                "[WithMessage (External m) (''failed on node ('' @ Node_Name n @ '')'')]"])
         simp_all
  qed
qed

lemma retry_init_effect:
  "init_effect env cluster {n} s (snd (retry_Do k (init_retryable env cluster n) s))"
proof (induction k arbitrary: s)
  case 0
  have "snd (retry_Do 0 (init_retryable env cluster n) s) = snd (init_retryable env cluster n s)"
    by (auto split: prod.splits option.splits)
  with init_retryable_effect[of env cluster n s] show ?case by simp
next
  case (Suc k)
  obtain r s1 where f: "init_retryable env cluster n s = (r, s1)" by (metis surj_pair)
  from init_retryable_effect[of env cluster n s] f
  have 1: "init_effect env cluster {n} s s1" by simp
  show ?case
  proof (cases r)
    case None
    with f 1 show ?thesis by simp
  next
    case (Some e)
    with f have "retry_Do (Suc k) (init_retryable env cluster n) s
                   = retry_Do k (init_retryable env cluster n) s1" by simp
    with init_effect_trans[OF 1 Suc.IH[of s1]] show ?thesis by simp
  qed
qed

lemma init_tasks_effect:
  "init_effect env cluster (set ns) s (init_tasks env cluster ns s)"
proof (induction ns arbitrary: s)
  case Nil
  show ?case by (simp add: init_effect_refl)
next
  case (Cons n ns)
  let ?s1 = "snd (retry_Do (retry_more env) (init_retryable env cluster n) s)"
  have 1: "init_effect env cluster (set (n # ns)) s ?s1"
    by (rule init_effect_mono[OF retry_init_effect]) simp
  have 2: "init_effect env cluster (set (n # ns)) ?s1 (init_tasks env cluster ns ?s1)"
    by (rule init_effect_mono[OF Cons.IH]) auto
  from init_effect_trans[OF 1 2] show ?case by simp
qed

lemma init_collect_aggregate:
  assumes "\<forall>e \<in> set chErr. multierror_members e = [e]"
  shows "init_collect (Some (MultiError es)) chErr = Some (MultiError (es @ chErr))"
  using assms by (induction chErr arbitrary: es) (simp_all add: multierror_Append_def)

lemma init_collect_None:
  assumes "\<forall>e \<in> set chErr. multierror_members e = [e]"
  shows "init_collect None chErr = (if chErr = [] then None else Some (MultiError chErr))"
proof (cases chErr)
  case Nil
  then show ?thesis by simp
next
  case (Cons e es)
  with assms init_collect_aggregate[of es "[e]"] show ?thesis
    by (simp add: multierror_Append_def)
qed

text \<open>
  What holds of the failures of \<open>init\<close>: an error of \<open>init\<close> is the aggregate of failures
  of command batches, each named after a node of the cluster, and \<open>init\<close> runs nothing
  but the prerequisite batch; \<open>Deploy\<close> returns that error and stops there.
\<close>

lemma init_error:
  assumes "init env cluster t = (r, t')"
  shows "\<exists>added errs.
           t' = t @ added
         \<and> r = (if errs = [] then None else Some (MultiError errs))
         \<and> (\<forall>name cmds. (name, cmds) \<in> set (runs added) \<longrightarrow> cmds = init_cmds env cluster)
         \<and> (\<forall>e \<in> set errs. \<exists>n \<in> set (Cluster_Nodes cluster). \<exists>m.
                e = WithMessage (External m) (''failed on node ('' @ Node_Name n @ '')''))"
proof -
  obtain t1 chErr where i: "init_tasks env cluster (Cluster_Nodes cluster) (t, []) = (t1, chErr)"
    by (metis surj_pair)
  with assms have r: "r = init_collect None chErr" "t' = t1" by (simp_all add: init_def)
  from init_tasks_effect[of env cluster "Cluster_Nodes cluster" "(t, [])"] i
  obtain added where a: "t1 = t @ added"
    "\<forall>name cmds. (name, cmds) \<in> set (runs added) \<longrightarrow> cmds = init_cmds env cluster"
    "\<forall>e \<in> set chErr. \<exists>n \<in> set (Cluster_Nodes cluster). \<exists>m.
                e = WithMessage (External m) (''failed on node ('' @ Node_Name n @ '')'')"
    unfolding init_effect_def by auto
  from a(3) have "\<forall>e \<in> set chErr. multierror_members e = [e]" by auto
  from init_collect_None[OF this] r a show ?thesis
    by (intro exI[of _ added] exI[of _ chErr]) simp
qed

lemma Deploy_init_error:
  assumes "Deploy_before before_hook t = (None, t0)"
    and "nodeManager_WaitNodesRunning env t0 (Cluster_Name cluster) 5 = None"
    and "init env cluster (t0 @ [CallWaitNodesRunning (Cluster_Name cluster) 5]) = (Some err, t2)"
  shows "Deploy env cluster before_hook t = (Some err, t2)"
  using assms by (simp add: Deploy_def Deploy_bootstrapped_def)

lemma init_retryable_refused:
  assumes "utilssh_NewClient env t (Node_Name n) (Prikey (Cluster_Spec cluster)) ''root''
             (Node_Status_IPAddresses n) = Some e"
  shows "init_retryable env cluster n (t, chErr)
           = (Some (External e),
              t @ [CallNewClient (Node_Name n) (Prikey (Cluster_Spec cluster)) ''root''
                     (Node_Status_IPAddresses n)],
              chErr)"
  using assms by (simp add: init_retryable_def)

lemma init_retryable_granted:
  assumes "utilssh_NewClient env t (Node_Name n) (Prikey (Cluster_Spec cluster)) ''root''
             (Node_Status_IPAddresses n) = None"
  shows "init_retryable env cluster n (t, chErr)
           = (None,
              t @ [CallNewClient (Node_Name n) (Prikey (Cluster_Spec cluster)) ''root''
                     (Node_Status_IPAddresses n),
                   CallRun (Node_Name n) (init_cmds env cluster), CallClose (Node_Name n)],
              chErr @ (case fst (sshClient_Run env
                                   (t @ [CallNewClient (Node_Name n) (Prikey (Cluster_Spec cluster))
                                           ''root'' (Node_Status_IPAddresses n)])
                                   (Node_Name n) (init_cmds env cluster)) of
                         None \<Rightarrow> []
                       | Some e \<Rightarrow> [WithMessage (External e)
                                     (''failed on node ('' @ Node_Name n @ '')'')]))"
  using assms by (simp add: init_retryable_def Let_def split: option.splits)

lemma retry_init_exact:
  assumes "retry_Do k (init_retryable env cluster n) (t, chErr) = (r, t', chErr')"
  shows "\<exists>j \<le> k.
           (\<forall>i < j. utilssh_NewClient env
                       (t @ replicate i (CallNewClient (Node_Name n) (Prikey (Cluster_Spec cluster))
                                           ''root'' (Node_Status_IPAddresses n)))
                       (Node_Name n) (Prikey (Cluster_Spec cluster)) ''root''
                       (Node_Status_IPAddresses n) \<noteq> None)
         \<and> (case utilssh_NewClient env
                   (t @ replicate j (CallNewClient (Node_Name n) (Prikey (Cluster_Spec cluster))
                                       ''root'' (Node_Status_IPAddresses n)))
                   (Node_Name n) (Prikey (Cluster_Spec cluster)) ''root''
                   (Node_Status_IPAddresses n) of
               None \<Rightarrow>
                 r = None
               \<and> t' = t @ replicate (Suc j)
                              (CallNewClient (Node_Name n) (Prikey (Cluster_Spec cluster))
                                 ''root'' (Node_Status_IPAddresses n))
                        @ [CallRun (Node_Name n) (init_cmds env cluster),
                           CallClose (Node_Name n)]
               \<and> chErr' = chErr
                     @ (case fst (sshClient_Run env
                                    (t @ replicate (Suc j)
                                           (CallNewClient (Node_Name n)
                                              (Prikey (Cluster_Spec cluster)) ''root''
                                              (Node_Status_IPAddresses n)))
                                    (Node_Name n) (init_cmds env cluster)) of
                          None \<Rightarrow> []
                        | Some e \<Rightarrow> [WithMessage (External e)
                                      (''failed on node ('' @ Node_Name n @ '')'')])
             | Some e \<Rightarrow>
                 j = k \<and> r = Some (External e)
               \<and> t' = t @ replicate (Suc k)
                              (CallNewClient (Node_Name n) (Prikey (Cluster_Spec cluster))
                                 ''root'' (Node_Status_IPAddresses n))
               \<and> chErr' = chErr)"
  using assms
proof (induction k arbitrary: t)
  case 0
  let ?C = "CallNewClient (Node_Name n) (Prikey (Cluster_Spec cluster)) ''root''
              (Node_Status_IPAddresses n)"
  show ?case
  proof (cases "utilssh_NewClient env t (Node_Name n) (Prikey (Cluster_Spec cluster)) ''root''
                  (Node_Status_IPAddresses n)")
    case None
    from init_retryable_granted[OF None, of chErr] "0.prems" None show ?thesis
      by (intro exI[of _ 0]) auto
  next
    case (Some e)
    from init_retryable_refused[OF Some, of chErr] "0.prems" Some show ?thesis
      by (intro exI[of _ 0]) auto
  qed
next
  case (Suc k)
  let ?C = "CallNewClient (Node_Name n) (Prikey (Cluster_Spec cluster)) ''root''
              (Node_Status_IPAddresses n)"
  show ?case
  proof (cases "utilssh_NewClient env t (Node_Name n) (Prikey (Cluster_Spec cluster)) ''root''
                  (Node_Status_IPAddresses n)")
    case None
    from init_retryable_granted[OF None, of chErr] Suc.prems None show ?thesis
      by (intro exI[of _ 0]) auto
  next
    case (Some e)
    from init_retryable_refused[OF Some, of chErr] Suc.prems
    have "retry_Do k (init_retryable env cluster n) (t @ [?C], chErr) = (r, t', chErr')"
      by simp
    from Suc.IH[OF this] obtain j where j: "j \<le> k"
      and ref: "\<forall>i < j. utilssh_NewClient env ((t @ [?C]) @ replicate i ?C)
                       (Node_Name n) (Prikey (Cluster_Spec cluster)) ''root''
                       (Node_Status_IPAddresses n) \<noteq> None"
      and fin: "case utilssh_NewClient env ((t @ [?C]) @ replicate j ?C)
                   (Node_Name n) (Prikey (Cluster_Spec cluster)) ''root''
                   (Node_Status_IPAddresses n) of
               None \<Rightarrow>
                 r = None
               \<and> t' = (t @ [?C]) @ replicate (Suc j) ?C
                        @ [CallRun (Node_Name n) (init_cmds env cluster),
                           CallClose (Node_Name n)]
               \<and> chErr' = chErr
                     @ (case fst (sshClient_Run env ((t @ [?C]) @ replicate (Suc j) ?C)
                                    (Node_Name n) (init_cmds env cluster)) of
                          None \<Rightarrow> []
                        | Some e \<Rightarrow> [WithMessage (External e)
                                      (''failed on node ('' @ Node_Name n @ '')'')])
             | Some e \<Rightarrow>
                 j = k \<and> r = Some (External e)
               \<and> t' = (t @ [?C]) @ replicate (Suc k) ?C
               \<and> chErr' = chErr"
      by blast
    have sh: "\<And>i. (t @ [?C]) @ replicate i ?C = t @ replicate (Suc i) ?C"
      by simp
    have ref': "\<forall>i < Suc j. utilssh_NewClient env (t @ replicate i ?C)
                       (Node_Name n) (Prikey (Cluster_Spec cluster)) ''root''
                       (Node_Status_IPAddresses n) \<noteq> None"
    proof (intro allI impI)
      fix i assume "i < Suc j"
      show "utilssh_NewClient env (t @ replicate i ?C)
                       (Node_Name n) (Prikey (Cluster_Spec cluster)) ''root''
                       (Node_Status_IPAddresses n) \<noteq> None"
      proof (cases i)
        case 0
        with Some show ?thesis by simp
      next
        case (Suc i')
        with \<open>i < Suc j\<close> have "i' < j" by simp
        with ref have "utilssh_NewClient env ((t @ [?C]) @ replicate i' ?C)
                       (Node_Name n) (Prikey (Cluster_Spec cluster)) ''root''
                       (Node_Status_IPAddresses n) \<noteq> None" by blast
        then show ?thesis unfolding sh Suc .
      qed
    qed
    show ?thesis
      apply (rule exI[of _ "Suc j"])
      apply (intro conjI)
        apply (simp add: j)
       apply (rule ref')
      using fin unfolding sh
      apply (simp split: option.splits)
      done
  qed
qed

text \<open>
  C2, as amended. The closure that \<open>init\<close> gives to the retry library reports success
  exactly when the session to the node is established, whatever the commands do then. A
  refused session is reported to the retry library, which attempts again, each time on
  the trace that the refused attempts left, until a session is granted or its attempts
  are used up. When a session is granted, after \<open>j\<close> refused ones, the command batch is run
  once on it and never again, the retried operation ends without error, and the failure
  of the commands, if there is one, is appended to the channel under the name of the
  node; nothing else reaches the channel. So for every node the command batch is run at
  most once, at least one and at most as many sessions are requested as the library
  allows attempts, and when the first session is established there is exactly one attempt.
\<close>

theorem init_retries_sessions_only:
  assumes "retry_Do k (init_retryable env cluster n) (t, chErr) = (r, t', chErr')"
  shows "(\<forall>s. fst (init_retryable env cluster n s) = None
              \<longleftrightarrow> utilssh_NewClient env (fst s) (Node_Name n) (Prikey (Cluster_Spec cluster))
                     ''root'' (Node_Status_IPAddresses n) = None)
       \<and> (\<exists>added. t' = t @ added
             \<and> length (runs added) \<le> 1
             \<and> 1 \<le> length (connects added) \<and> length (connects added) \<le> Suc k
             \<and> (length (runs added) = 1 \<longleftrightarrow> r = None)
             \<and> (utilssh_NewClient env t (Node_Name n) (Prikey (Cluster_Spec cluster)) ''root''
                   (Node_Status_IPAddresses n) = None
                  \<longrightarrow> length (connects added) = 1))
       \<and> (\<exists>j \<le> k.
            (\<forall>i < j. utilssh_NewClient env
                        (t @ replicate i (CallNewClient (Node_Name n)
                                            (Prikey (Cluster_Spec cluster)) ''root''
                                            (Node_Status_IPAddresses n)))
                        (Node_Name n) (Prikey (Cluster_Spec cluster)) ''root''
                        (Node_Status_IPAddresses n) \<noteq> None)
          \<and> (case utilssh_NewClient env
                    (t @ replicate j (CallNewClient (Node_Name n)
                                        (Prikey (Cluster_Spec cluster)) ''root''
                                        (Node_Status_IPAddresses n)))
                    (Node_Name n) (Prikey (Cluster_Spec cluster)) ''root''
                    (Node_Status_IPAddresses n) of
                None \<Rightarrow>
                  r = None
                \<and> t' = t @ replicate (Suc j)
                               (CallNewClient (Node_Name n) (Prikey (Cluster_Spec cluster))
                                  ''root'' (Node_Status_IPAddresses n))
                         @ [CallRun (Node_Name n) (init_cmds env cluster),
                            CallClose (Node_Name n)]
                \<and> chErr' = chErr
                      @ (case fst (sshClient_Run env
                                     (t @ replicate (Suc j)
                                            (CallNewClient (Node_Name n)
                                               (Prikey (Cluster_Spec cluster)) ''root''
                                               (Node_Status_IPAddresses n)))
                                     (Node_Name n) (init_cmds env cluster)) of
                           None \<Rightarrow> []
                         | Some e \<Rightarrow> [WithMessage (External e)
                                       (''failed on node ('' @ Node_Name n @ '')'')])
              | Some e \<Rightarrow>
                  j = k \<and> r = Some (External e)
                \<and> t' = t @ replicate (Suc k)
                               (CallNewClient (Node_Name n) (Prikey (Cluster_Spec cluster))
                                  ''root'' (Node_Status_IPAddresses n))
                \<and> chErr' = chErr))"
proof (intro conjI)
  show "\<forall>s. fst (init_retryable env cluster n s) = None
              \<longleftrightarrow> utilssh_NewClient env (fst s) (Node_Name n) (Prikey (Cluster_Spec cluster))
                     ''root'' (Node_Status_IPAddresses n) = None"
    by (auto simp: init_retryable_def Let_def split: option.splits prod.splits)
  from retry_init_trace[OF assms]
  show "\<exists>added. t' = t @ added
             \<and> length (runs added) \<le> 1
             \<and> 1 \<le> length (connects added) \<and> length (connects added) \<le> Suc k
             \<and> (length (runs added) = 1 \<longleftrightarrow> r = None)
             \<and> (utilssh_NewClient env t (Node_Name n) (Prikey (Cluster_Spec cluster)) ''root''
                   (Node_Status_IPAddresses n) = None
                  \<longrightarrow> length (connects added) = 1)" .
  from retry_init_exact[OF assms]
  show "\<exists>j \<le> k.
            (\<forall>i < j. utilssh_NewClient env
                        (t @ replicate i (CallNewClient (Node_Name n)
                                            (Prikey (Cluster_Spec cluster)) ''root''
                                            (Node_Status_IPAddresses n)))
                        (Node_Name n) (Prikey (Cluster_Spec cluster)) ''root''
                        (Node_Status_IPAddresses n) \<noteq> None)
          \<and> (case utilssh_NewClient env
                    (t @ replicate j (CallNewClient (Node_Name n)
                                        (Prikey (Cluster_Spec cluster)) ''root''
                                        (Node_Status_IPAddresses n)))
                    (Node_Name n) (Prikey (Cluster_Spec cluster)) ''root''
                    (Node_Status_IPAddresses n) of
                None \<Rightarrow>
                  r = None
                \<and> t' = t @ replicate (Suc j)
                               (CallNewClient (Node_Name n) (Prikey (Cluster_Spec cluster))
                                  ''root'' (Node_Status_IPAddresses n))
                         @ [CallRun (Node_Name n) (init_cmds env cluster),
                            CallClose (Node_Name n)]
                \<and> chErr' = chErr
                      @ (case fst (sshClient_Run env
                                     (t @ replicate (Suc j)
                                            (CallNewClient (Node_Name n)
                                               (Prikey (Cluster_Spec cluster)) ''root''
                                               (Node_Status_IPAddresses n)))
                                     (Node_Name n) (init_cmds env cluster)) of
                           None \<Rightarrow> []
                         | Some e \<Rightarrow> [WithMessage (External e)
                                       (''failed on node ('' @ Node_Name n @ '')'')])
              | Some e \<Rightarrow>
                  j = k \<and> r = Some (External e)
                \<and> t' = t @ replicate (Suc k)
                               (CallNewClient (Node_Name n) (Prikey (Cluster_Spec cluster))
                                  ''root'' (Node_Status_IPAddresses n))
                \<and> chErr' = chErr)" .
qed

theorem init_retries_sessions_only_witness:
  "retry_Do 9
     (init_retryable (demo_env [] (connect_late ''demo-worker-1'')
                        (run_fails ''demo-worker-1'' '''') 9)
        (demo_cluster [demo_master, demo_worker1]) demo_worker1) ([], [])
     = (None,
        [CallNewClient ''demo-worker-1'' ''id_rsa'' ''root'' ''10.0.0.2'',
         CallNewClient ''demo-worker-1'' ''id_rsa'' ''root'' ''10.0.0.2'',
         CallRun ''demo-worker-1''
           (init_cmds (demo_env [] (connect_late ''demo-worker-1'')
                         (run_fails ''demo-worker-1'' '''') 9)
              (demo_cluster [demo_master, demo_worker1])),
         CallClose ''demo-worker-1''],
        [WithMessage (External ''exit status 1'') ''failed on node (demo-worker-1)''])
   \<and> (\<exists>j \<le> 9.
         [CallNewClient ''demo-worker-1'' ''id_rsa'' ''root'' ''10.0.0.2'',
          CallNewClient ''demo-worker-1'' ''id_rsa'' ''root'' ''10.0.0.2'',
          CallRun ''demo-worker-1''
            (init_cmds (demo_env [] (connect_late ''demo-worker-1'')
                          (run_fails ''demo-worker-1'' '''') 9)
               (demo_cluster [demo_master, demo_worker1])),
          CallClose ''demo-worker-1'']
         = replicate (Suc j) (CallNewClient ''demo-worker-1'' ''id_rsa'' ''root'' ''10.0.0.2'')
             @ [CallRun ''demo-worker-1''
                  (init_cmds (demo_env [] (connect_late ''demo-worker-1'')
                                (run_fails ''demo-worker-1'' '''') 9)
                     (demo_cluster [demo_master, demo_worker1])),
                CallClose ''demo-worker-1''])"
proof -
  let ?E = "demo_env [] (connect_late ''demo-worker-1'') (run_fails ''demo-worker-1'' '''') 9"
  let ?C = "demo_cluster [demo_master, demo_worker1]"
  let ?c = "CallNewClient ''demo-worker-1'' ''id_rsa'' ''root'' ''10.0.0.2''"
  let ?t = "[?c, ?c, CallRun ''demo-worker-1'' (init_cmds ?E ?C), CallClose ''demo-worker-1'']"
  have h: "retry_Do 9 (init_retryable ?E ?C demo_worker1) ([], [])
             = (None, ?t,
                [WithMessage (External ''exit status 1'') ''failed on node (demo-worker-1)''])"
    by (simp add: model_defs demo_defs)
  have v: "Node_Name demo_worker1 = ''demo-worker-1''" "Prikey (Cluster_Spec ?C) = ''id_rsa''"
    "Node_Status_IPAddresses demo_worker1 = ''10.0.0.2''"
    by (simp_all add: demo_defs)
  from init_retries_sessions_only[OF h] obtain j where j: "j \<le> 9"
    and c: "case utilssh_NewClient ?E ([] @ replicate j ?c) ''demo-worker-1'' ''id_rsa'' ''root''
                   ''10.0.0.2'' of
              None \<Rightarrow> ?t = [] @ replicate (Suc j) ?c
                             @ [CallRun ''demo-worker-1'' (init_cmds ?E ?C),
                                CallClose ''demo-worker-1'']
            | Some e \<Rightarrow> (None :: error option) = Some (External e)"
    unfolding v by (auto split: option.splits)
  then have "?t = replicate (Suc j) ?c
                    @ [CallRun ''demo-worker-1'' (init_cmds ?E ?C), CallClose ''demo-worker-1'']"
    by (auto split: option.splits)
  with h j show ?thesis by blast
qed

text \<open>
  C2 as stated fails: the first session to the worker is refused and every later one is
  granted. The closure reports the refusal to the retry library, which attempts again:
  two sessions are requested for the node.
\<close>

theorem init_retry_counterexample:
  "init_retryable (demo_env [] (connect_late ''demo-worker-1'') (run_ok '''') 9)
     (demo_cluster [demo_master, demo_worker1]) demo_worker1 ([], [])
     = (Some (External ''connection refused''),
        [CallNewClient ''demo-worker-1'' ''id_rsa'' ''root'' ''10.0.0.2''], [])
   \<and> retry_Do 9
       (init_retryable (demo_env [] (connect_late ''demo-worker-1'') (run_ok '''') 9)
          (demo_cluster [demo_master, demo_worker1]) demo_worker1) ([], [])
     = (None,
        [CallNewClient ''demo-worker-1'' ''id_rsa'' ''root'' ''10.0.0.2'',
         CallNewClient ''demo-worker-1'' ''id_rsa'' ''root'' ''10.0.0.2'',
         CallRun ''demo-worker-1''
           (init_cmds (demo_env [] (connect_late ''demo-worker-1'') (run_ok '''') 9)
              (demo_cluster [demo_master, demo_worker1])),
         CallClose ''demo-worker-1''],
        [])"
  by (simp add: model_defs demo_defs)

text \<open>
  C1 fails on the code. Every session to the worker is refused. The retry library gives
  up after its ten attempts and \<open>init\<close> drops what it returns: nothing reaches the
  channel, \<open>init\<close> reports no error, and \<open>Deploy\<close> goes on to fetch the primary and to run
  the bootstrap commands on it. The error that \<open>Deploy\<close> returns in the end is the refused
  session of the join, which is not an aggregate and does not name the node.
\<close>

theorem init_drops_connection_failure:
  "init (demo_env [demo_master, demo_worker1] (connect_refused ''demo-worker-1'')
           (run_ok (''K10secret'' @ [newline])) 9)
     (demo_cluster [demo_master, demo_worker1]) [CallWaitNodesRunning ''demo'' 5]
     = (None,
        [CallWaitNodesRunning ''demo'' 5,
         CallNewClient ''demo-master-1'' ''id_rsa'' ''root'' ''10.0.0.1'',
         CallRun ''demo-master-1''
           (init_cmds (demo_env [demo_master, demo_worker1] (connect_refused ''demo-worker-1'')
                         (run_ok (''K10secret'' @ [newline])) 9)
              (demo_cluster [demo_master, demo_worker1])),
         CallClose ''demo-master-1'']
        @ replicate 10 (CallNewClient ''demo-worker-1'' ''id_rsa'' ''root'' ''10.0.0.2''))
   \<and> Deploy (demo_env [demo_master, demo_worker1] (connect_refused ''demo-worker-1'')
               (run_ok (''K10secret'' @ [newline])) 9)
       (demo_cluster [demo_master, demo_worker1]) None []
     = (Some (External ''connection refused''),
        [CallWaitNodesRunning ''demo'' 5,
         CallNewClient ''demo-master-1'' ''id_rsa'' ''root'' ''10.0.0.1'',
         CallRun ''demo-master-1''
           (init_cmds (demo_env [demo_master, demo_worker1] (connect_refused ''demo-worker-1'')
                         (run_ok (''K10secret'' @ [newline])) 9)
              (demo_cluster [demo_master, demo_worker1])),
         CallClose ''demo-master-1'']
        @ replicate 10 (CallNewClient ''demo-worker-1'' ''id_rsa'' ''root'' ''10.0.0.2'')
        @ [CallGetNode ''demo-master-1'',
           CallNewClient ''demo-master-1'' ''id_rsa'' ''root'' ''10.0.0.1'',
           CallRun ''demo-master-1''
             [''INSTALL_K3S_EXEC='' @ [dquote] @ ''--bind-address=10.0.0.1 --cluster-init''
                @ [dquote] @ '' INSTALL_K3S_VERSION=v1.18.8 k3s-install.sh ''],
           CallRun ''demo-master-1'' [''cat /var/lib/rancher/k3s/server/node-token''],
           CallClose ''demo-master-1'',
           CallListNodes ''demo'',
           CallNewClient ''demo-worker-1'' ''id_rsa'' ''root'' ''10.0.0.2''])"
  by (simp add: model_defs demo_defs eval_nat_numeral)

end
